theory Spec2Isabelle
  imports Complex_Main
begin

section \<open>Errors\<close>

text \<open>
  Every exception the modelled code can raise is a value. The two \<^verbatim>\<open>ValueError\<close>s that
  \<^verbatim>\<open>main.py\<close> raises itself carry the names the specification gives them:
  \<open>SymbolNotFound\<close> is \<^verbatim>\<open>ValueError(f"Symbol {symbol_upper} not found")\<close> (line 84) and
  \<open>BelowMinimum\<close> is \<^verbatim>\<open>ValueError(f"Quantity {quantity} is below minimum {min_qty}")\<close>
  (line 103). The others are raised by Python itself (\<^verbatim>\<open>decimal\<close>, \<^verbatim>\<open>next\<close>, dictionary
  lookup, \<^verbatim>\<open>float\<close>) or by the exchange client.
\<close>

datatype error =
    SymbolNotFound
  | BelowMinimum
  | DivisionByZero
  | InvalidOperation
  | Overflow
  | StopIteration
  | KeyError
  | ValueError
  | TypeError
  | OverflowError
  | ExchangeError string

section \<open>Digit strings\<close>

definition digit_char :: "nat \<Rightarrow> char" where
  "digit_char d = ''0123456789'' ! d"

definition digit_val :: "char \<Rightarrow> nat option" where
  "digit_val c = map_of (zip ''0123456789'' [0, 1, 2, 3, 4, 5, 6, 7, 8, 9]) c"

definition is_digit :: "char \<Rightarrow> bool" where
  "is_digit c \<longleftrightarrow> digit_val c \<noteq> None"

text \<open>\<^verbatim>\<open>str(n)\<close> of a non-negative Python integer.\<close>

fun str_nat :: "nat \<Rightarrow> string" where
  "str_nat n = (if n < 10 then [digit_char n] else str_nat (n div 10) @ [digit_char (n mod 10)])"

declare str_nat.simps [simp del]

text \<open>\<^verbatim>\<open>int(s)\<close> of a string of ASCII digits, read from the left; \<open>None\<close> when a
  character is no digit.\<close>

fun nat_of_digits :: "nat \<Rightarrow> string \<Rightarrow> nat option" where
  "nat_of_digits acc [] = Some acc"
| "nat_of_digits acc (c # cs) =
     (case digit_val c of None \<Rightarrow> None | Some d \<Rightarrow> nat_of_digits (10 * acc + d) cs)"

section \<open>Python's \<^verbatim>\<open>Decimal\<close> in the default context\<close>

text \<open>
  A finite \<^verbatim>\<open>Decimal\<close> is a sign, a coefficient and an exponent (\<^verbatim>\<open>_sign\<close>, \<^verbatim>\<open>_int\<close>,
  \<^verbatim>\<open>_exp\<close>); its value is \<open>\<plusminus> coef * 10 ^ dexp\<close>. The coefficient is stored without
  leading zeros, so it is a natural number here and \<^verbatim>\<open>len(_int)\<close> is \<open>ndigits\<close>.
  The special values (infinities, NaN) are no exact decimal values and are not part of
  this type: minimum quantities and step sizes are finite decimals. A quantity can be
  special (the float infinity is one); \<open>pydecimal\<close> below adds these values.

  The arithmetic is that of the default context, which \<^verbatim>\<open>main.py\<close> never changes:
  28 significant digits, \<^verbatim>\<open>ROUND_HALF_EVEN\<close>, \<^verbatim>\<open>Emin = -999999\<close>, \<^verbatim>\<open>Emax = 999999\<close>,
  no clamping, and traps on \<^verbatim>\<open>InvalidOperation\<close>, \<^verbatim>\<open>DivisionByZero\<close> and \<^verbatim>\<open>Overflow\<close>
  (a trapped signal is an exception; \<^verbatim>\<open>Inexact\<close>, \<^verbatim>\<open>Rounded\<close>, \<^verbatim>\<open>Subnormal\<close>,
  \<^verbatim>\<open>Underflow\<close> and \<^verbatim>\<open>Clamped\<close> are not trapped and leave only the rounded result).
\<close>

record decimal =
  dsign :: bool
  coef :: nat
  dexp :: int

definition prec :: nat where "prec = 28"
definition Emax :: int where "Emax = 999999"
definition Emin :: int where "Emin = - 999999"
definition Etiny :: int where "Etiny = Emin - int prec + 1"
definition Etop :: int where "Etop = Emax - int prec + 1"

definition ndigits :: "nat \<Rightarrow> nat" where
  "ndigits n = length (str_nat n)"

definition p10 :: "int \<Rightarrow> rat" where
  "p10 e = (if 0 \<le> e then 10 ^ nat e else 1 / 10 ^ nat (- e))"

definition dval :: "decimal \<Rightarrow> rat" where
  "dval d = (if dsign d then - 1 else 1) * of_nat (coef d) * p10 (dexp d)"

text \<open>Comparison of two finite decimals is exact (\<^verbatim>\<open>Decimal.__lt__\<close>).\<close>

definition dlt :: "decimal \<Rightarrow> decimal \<Rightarrow> bool" where
  "dlt a b \<longleftrightarrow> dval a < dval b"

text \<open>
  Rounding half to even of \<open>c / 10 ^ k\<close> to an integer: the coefficient keeps its
  leading digits, and goes up by one when the dropped digits are more than a half, or
  exactly a half with an odd digit before them.
\<close>

definition round_half_even :: "nat \<Rightarrow> nat \<Rightarrow> nat" where
  "round_half_even c k =
     (let q = c div 10 ^ k; r = c mod 10 ^ k
      in if 2 * r > 10 ^ k \<or> (2 * r = 10 ^ k \<and> odd q) then q + 1 else q)"

text \<open>\<^verbatim>\<open>Decimal._rescale(exp, ROUND_HALF_EVEN)\<close>: the same number at exponent \<open>e\<close>,
  padded with zeros or rounded. It looks at no context limit.\<close>

definition rescale :: "decimal \<Rightarrow> int \<Rightarrow> decimal" where
  "rescale d e =
     (if coef d = 0 then d\<lparr>dexp := e\<rparr>
      else if dexp d \<ge> e then d\<lparr>coef := coef d * 10 ^ nat (dexp d - e), dexp := e\<rparr>
      else d\<lparr>coef := round_half_even (coef d) (nat (e - dexp d)), dexp := e\<rparr>)"

text \<open>
  \<^verbatim>\<open>Decimal._fix(context)\<close>, applied to the result of every arithmetic operation:
  a zero has its exponent brought into \<open>[Etiny, Emax]\<close>; a number whose adjusted
  exponent exceeds \<open>Emax\<close> overflows; a coefficient of more than 28 digits (or an
  exponent below \<open>Etiny\<close>) is rounded half to even.
\<close>

definition fix_ctx :: "decimal \<Rightarrow> error + decimal" where
  "fix_ctx d =
     (if coef d = 0 then Inr (d\<lparr>dexp := min (max (dexp d) Etiny) Emax\<rparr>)
      else
        let exp_min0 = int (ndigits (coef d)) + dexp d - int prec
        in if exp_min0 > Etop then Inl Overflow
           else
             let exp_min = max exp_min0 Etiny
             in if dexp d < exp_min then
                  let c = round_half_even (coef d) (nat (exp_min - dexp d))
                  in if ndigits c > prec then
                       (if exp_min + 1 > Etop then Inl Overflow
                        else Inr (d\<lparr>coef := c div 10, dexp := exp_min + 1\<rparr>))
                     else Inr (d\<lparr>coef := c, dexp := exp_min\<rparr>)
                else Inr d)"

text \<open>
  \<^verbatim>\<open>a // b\<close> (\<^verbatim>\<open>Decimal.__floordiv__\<close>, the divide-integer operation): the integer part
  of the quotient, truncated toward zero, with exponent 0 and the sign of the exact
  quotient. A zero divisor raises \<^verbatim>\<open>DivisionByZero\<close> (\<^verbatim>\<open>InvalidOperation\<close> for
  \<^verbatim>\<open>0 // 0\<close>); an integer part of more than 28 digits raises \<^verbatim>\<open>InvalidOperation\<close>
  (division impossible).
\<close>

definition floordiv :: "decimal \<Rightarrow> decimal \<Rightarrow> error + decimal" where
  "floordiv a b =
     (if coef b = 0 then (if coef a = 0 then Inl InvalidOperation else Inl DivisionByZero)
      else
        let op1 = (if dexp a \<ge> dexp b then coef a * 10 ^ nat (dexp a - dexp b) else coef a);
            op2 = (if dexp a \<ge> dexp b then coef b else coef b * 10 ^ nat (dexp b - dexp a));
            q = op1 div op2
        in if q < 10 ^ prec then Inr \<lparr>dsign = (dsign a \<noteq> dsign b), coef = q, dexp = 0\<rparr>
           else Inl InvalidOperation)"

text \<open>\<^verbatim>\<open>a * b\<close> (\<^verbatim>\<open>Decimal.__mul__\<close>): the exact product, then \<open>fix_ctx\<close>.\<close>

definition mul :: "decimal \<Rightarrow> decimal \<Rightarrow> error + decimal" where
  "mul a b = fix_ctx \<lparr>dsign = (dsign a \<noteq> dsign b), coef = coef a * coef b, dexp = dexp a + dexp b\<rparr>"

text \<open>
  \<^verbatim>\<open>format(d, ".Nf")\<close> (\<^verbatim>\<open>Decimal.__format__\<close>): the number is rescaled to exponent
  \<open>-N\<close> with the context's rounding, then written as sign, integer digits and, when
  there are fractional digits, a point and the fractional digits. With \<open>N = 0\<close> there
  is no point. A negative zero keeps its sign.
\<close>

definition format_f :: "decimal \<Rightarrow> nat \<Rightarrow> string" where
  "format_f d n =
     (let r = rescale d (- int n);
          ds = str_nat (coef r);
          dotplace = dexp r + int (length ds);
          intpart = (if dotplace < 0 then ''0''
                     else if dotplace > int (length ds)
                       then ds @ replicate (nat (dotplace - int (length ds))) (CHR ''0'')
                     else if take (nat dotplace) ds = [] then ''0'' else take (nat dotplace) ds);
          fracpart = (if dotplace < 0 then replicate (nat (- dotplace)) (CHR ''0'') @ ds
                      else if dotplace > int (length ds) then []
                      else drop (nat dotplace) ds)
      in (if dsign r then ''-'' else []) @ intpart
         @ (if fracpart = [] then [] else CHR ''.'' # fracpart))"

text \<open>
  \<^verbatim>\<open>Decimal(s)\<close> for a numeric string: an optional sign, digits with an optional point,
  an optional exponent; at least one digit. The coefficient is the integer and
  fractional digits together, the exponent is the written exponent minus the number of
  fractional digits; nothing is rounded. A string that is no such numeral raises
  \<^verbatim>\<open>InvalidOperation\<close>. (Python also reads the literals \<^verbatim>\<open>Infinity\<close> and \<^verbatim>\<open>NaN\<close>,
  underscores between digits and surrounding blanks; these are read as malformed here,
  and no statement below depends on a string being rejected.)
\<close>

definition parse_exponent :: "string \<Rightarrow> int option" where
  "parse_exponent s =
     (case s of
        [] \<Rightarrow> Some 0
      | _ # t \<Rightarrow>
          (let neg = (case t of c # _ \<Rightarrow> c = CHR ''-'' | [] \<Rightarrow> False);
               ds = (case t of c # r \<Rightarrow> if c = CHR ''-'' \<or> c = CHR ''+'' then r else t
                     | [] \<Rightarrow> t)
           in if ds = [] then None
              else (case nat_of_digits 0 ds of
                      None \<Rightarrow> None
                    | Some e \<Rightarrow> Some (if neg then - int e else int e))))"

definition Decimal :: "string \<Rightarrow> error + decimal" where
  "Decimal s =
     (let neg = (case s of c # _ \<Rightarrow> c = CHR ''-'' | [] \<Rightarrow> False);
          body = (case s of c # r \<Rightarrow> if c = CHR ''-'' \<or> c = CHR ''+'' then r else s
                  | [] \<Rightarrow> s);
          mant = takeWhile (\<lambda>c. c \<noteq> CHR ''E'' \<and> c \<noteq> CHR ''e'') body;
          ex = dropWhile (\<lambda>c. c \<noteq> CHR ''E'' \<and> c \<noteq> CHR ''e'') body;
          intpart = takeWhile (\<lambda>c. c \<noteq> CHR ''.'') mant;
          fracpart = (case dropWhile (\<lambda>c. c \<noteq> CHR ''.'') mant of [] \<Rightarrow> [] | _ # f \<Rightarrow> f)
      in if intpart @ fracpart = [] then Inl InvalidOperation
         else (case nat_of_digits 0 (intpart @ fracpart) of
                 None \<Rightarrow> Inl InvalidOperation
               | Some c \<Rightarrow>
                   (case parse_exponent ex of
                      None \<Rightarrow> Inl InvalidOperation
                    | Some e \<Rightarrow>
                        Inr \<lparr>dsign = neg, coef = c, dexp = e - int (length fracpart)\<rparr>)))"

section \<open>Trading rules and the quantity normaliser\<close>

text \<open>
  The dictionary that \<^verbatim>\<open>get_symbol_info\<close> builds and caches (lines 76 to 81), the
  specification's \<open>TradingRules\<close>.
\<close>

record symbol_info =
  price_precision :: nat
  quantity_precision :: nat
  min_qty :: decimal
  step_size :: decimal

text \<open>
  Lines 102 to 105 of \<^verbatim>\<open>_validate_and_format_quantity\<close> on a finite quantity, once
  the rules of the symbol are known: the specification's \<open>normalize(rules, q)\<close> for a
  quantity that is an exact decimal value. \<open>quantity_dec\<close> is the decimal that line
  101 reads from a finite float (which prints as a numeral of at most 17 significant
  digits). Line 101 itself, and the floats that are no finite number, are part of
  \<open>normalize_raw\<close> below.
\<close>

definition normalize :: "symbol_info \<Rightarrow> decimal \<Rightarrow> error + string" where
  "normalize symbol_info quantity_dec =
     (if dlt quantity_dec (min_qty symbol_info) then Inl BelowMinimum
      else
        (case floordiv quantity_dec (step_size symbol_info) of
           Inl e \<Rightarrow> Inl e
         | Inr k \<Rightarrow>
             (case mul k (step_size symbol_info) of
                Inl e \<Rightarrow> Inl e
              | Inr adjusted_quantity \<Rightarrow>
                  Inr (format_f adjusted_quantity (quantity_precision symbol_info)))))"

text \<open>
  Line 101, \<^verbatim>\<open>Decimal(str(quantity))\<close>, reads the float through its string, and
  \<^verbatim>\<open>str\<close> of a float is a numeral or one of \<^verbatim>\<open>inf\<close>, \<^verbatim>\<open>-inf\<close> and \<^verbatim>\<open>nan\<close>, which
  \<^verbatim>\<open>Decimal\<close> reads as its special values. So the quantity of line 101 is a finite
  decimal, an infinity with its sign, or a (quiet) NaN; \<open>quantity_str\<close> is
  \<^verbatim>\<open>str(quantity)\<close>. (The other spellings that \<^verbatim>\<open>Decimal\<close> reads as special values
  never come out of \<^verbatim>\<open>str\<close> of a float.)
\<close>

datatype pydecimal = Finite decimal | Infinity bool | NaN

definition Decimal_str :: "string \<Rightarrow> error + pydecimal" where
  "Decimal_str quantity_str =
     (if quantity_str = ''inf'' then Inr (Infinity False)
      else if quantity_str = ''-inf'' then Inr (Infinity True)
      else if quantity_str = ''nan'' then Inr NaN
      else (case Decimal quantity_str of Inl e \<Rightarrow> Inl e | Inr d \<Rightarrow> Inr (Finite d)))"

text \<open>
  The operations of lines 102 to 105 when the quantity may be special; the minimum
  and the step of the rules are finite. An infinity is ordered by its sign,
  floor-divides to an infinity also by zero, multiplies to an infinity unless the other
  factor is zero (\<^verbatim>\<open>InvalidOperation\<close>), and is formatted as \<^verbatim>\<open>Infinity\<close> whatever the
  places asked for. Ordering a NaN raises \<^verbatim>\<open>InvalidOperation\<close>; \<^verbatim>\<open>//\<close> and \<^verbatim>\<open>*\<close> pass
  a quiet NaN on.
\<close>

fun lt_any :: "pydecimal \<Rightarrow> decimal \<Rightarrow> error + bool" where
  "lt_any (Finite a) b = Inr (dlt a b)"
| "lt_any (Infinity neg) b = Inr neg"
| "lt_any NaN b = Inl InvalidOperation"

fun floordiv_any :: "pydecimal \<Rightarrow> decimal \<Rightarrow> error + pydecimal" where
  "floordiv_any (Finite a) b =
     (case floordiv a b of Inl e \<Rightarrow> Inl e | Inr k \<Rightarrow> Inr (Finite k))"
| "floordiv_any (Infinity neg) b = Inr (Infinity (neg \<noteq> dsign b))"
| "floordiv_any NaN b = Inr NaN"

fun mul_any :: "pydecimal \<Rightarrow> decimal \<Rightarrow> error + pydecimal" where
  "mul_any (Finite a) b = (case mul a b of Inl e \<Rightarrow> Inl e | Inr p \<Rightarrow> Inr (Finite p))"
| "mul_any (Infinity neg) b =
     (if coef b = 0 then Inl InvalidOperation else Inr (Infinity (neg \<noteq> dsign b)))"
| "mul_any NaN b = Inr NaN"

fun format_any :: "pydecimal \<Rightarrow> nat \<Rightarrow> string" where
  "format_any (Finite d) n = format_f d n"
| "format_any (Infinity neg) n = (if neg then ''-Infinity'' else ''Infinity'')"
| "format_any NaN n = ''NaN''"

text \<open>
  Lines 99 to 105 in full, from the string of the float: the specification's
  \<open>normalize(rules, rawQuantity)\<close> on every raw quantity. On a numeral it is
  \<open>normalize\<close> on the decimal read.
\<close>

definition normalize_raw :: "symbol_info \<Rightarrow> string \<Rightarrow> error + string" where
  "normalize_raw symbol_info quantity_str =
     (case Decimal_str quantity_str of
        Inl e \<Rightarrow> Inl e
      | Inr quantity_dec \<Rightarrow>
          (case lt_any quantity_dec (min_qty symbol_info) of
             Inl e \<Rightarrow> Inl e
           | Inr below \<Rightarrow>
               if below then Inl BelowMinimum
               else
                 (case floordiv_any quantity_dec (step_size symbol_info) of
                    Inl e \<Rightarrow> Inl e
                  | Inr k \<Rightarrow>
                      (case mul_any k (step_size symbol_info) of
                         Inl e \<Rightarrow> Inl e
                       | Inr adjusted_quantity \<Rightarrow>
                           Inr (format_any adjusted_quantity
                                  (quantity_precision symbol_info))))))"

text \<open>The digits that a formatted quantity shows after its decimal point (none when it
  has no point).\<close>

definition fraction_part :: "string \<Rightarrow> string" where
  "fraction_part s = (case dropWhile (\<lambda>c. c \<noteq> CHR ''.'') s of [] \<Rightarrow> [] | _ # f \<Rightarrow> f)"

text \<open>The rules of the specification's scenarios: \<^verbatim>\<open>Decimal("0.001")\<close> for the minimum
  and for the step, three places.\<close>

definition example_rules :: symbol_info where
  "example_rules = \<lparr>price_precision = 2, quantity_precision = 3,
     min_qty = \<lparr>dsign = False, coef = 1, dexp = - 3\<rparr>,
     step_size = \<lparr>dsign = False, coef = 1, dexp = - 3\<rparr>\<rparr>"

section \<open>Python's \<^verbatim>\<open>float\<close> on exchange values\<close>

text \<open>
  A binary64 value is a rational number or an infinity (no NaN arises from a numeral).
  \<^verbatim>\<open>float(s)\<close> reads the numeral exactly and rounds it to the nearest binary64 value,
  ties to even: 53 significant bits, least exponent \<open>-1022\<close> (below it the spacing stays
  \<open>2 ^ -1074\<close>), and an infinity from \<open>2 ^ 1024\<close> on. The two zeros are one value.
\<close>

datatype pyfloat = Fin rat | PosInf | NegInf

fun ilog2 :: "nat \<Rightarrow> nat" where
  "ilog2 n = (if n < 2 then 0 else Suc (ilog2 (n div 2)))"

declare ilog2.simps [simp del]

definition p2 :: "int \<Rightarrow> rat" where
  "p2 e = (if 0 \<le> e then 2 ^ nat e else 1 / 2 ^ nat (- e))"

text \<open>For \<open>a > 0\<close>, the integer \<open>e\<close> with \<open>2 ^ e \<le> a < 2 ^ (e + 1)\<close>.\<close>

definition floor_log2 :: "rat \<Rightarrow> int" where
  "floor_log2 a =
     (let e = int (ilog2 (nat (fst (quotient_of a)))) - int (ilog2 (nat (snd (quotient_of a))))
      in if p2 e \<le> a then e else e - 1)"

definition round_half_even_rat :: "rat \<Rightarrow> int" where
  "round_half_even_rat m =
     (let f = \<lfloor>m\<rfloor>; d = m - of_int f
      in if d > 1 / 2 \<or> (d = 1 / 2 \<and> odd f) then f + 1 else f)"

definition round_binary64 :: "rat \<Rightarrow> pyfloat" where
  "round_binary64 v =
     (if v = 0 then Fin 0
      else
        let a = \<bar>v\<bar>;
            e = max (floor_log2 a) (- 1022);
            u = p2 (e - 52);
            r = of_int (round_half_even_rat (a / u)) * u
        in if r \<ge> p2 1024 then (if v > 0 then PosInf else NegInf)
           else Fin (if v > 0 then r else - r))"

text \<open>\<^verbatim>\<open>x > 0\<close> on a float.\<close>

fun float_gt0 :: "pyfloat \<Rightarrow> bool" where
  "float_gt0 (Fin r) = (0 < r)"
| "float_gt0 PosInf = True"
| "float_gt0 NegInf = False"

text \<open>\<^verbatim>\<open>float(s)\<close> of a string: \<^verbatim>\<open>ValueError\<close> when it is no numeral. The
  numerals are those of \<open>Decimal\<close> above, with the same literals left out.\<close>

definition float_of_str :: "string \<Rightarrow> error + pyfloat" where
  "float_of_str s =
     (case Decimal s of Inl _ \<Rightarrow> Inl ValueError | Inr d \<Rightarrow> Inr (round_binary64 (dval d)))"

text \<open>
  The values of the fields the code reads from a raw order: JSON strings, integers and
  null. \<^verbatim>\<open>float\<close> of an integer rounds the same way but raises \<^verbatim>\<open>OverflowError\<close>
  instead of giving an infinity; \<^verbatim>\<open>float(None)\<close> raises \<^verbatim>\<open>TypeError\<close>.
\<close>

datatype jval = JNull | JInt int | JStr string

fun float_of :: "jval \<Rightarrow> error + pyfloat" where
  "float_of (JStr s) = float_of_str s"
| "float_of (JInt n) =
     (case round_binary64 (of_int n) of Fin r \<Rightarrow> Inr (Fin r) | _ \<Rightarrow> Inl OverflowError)"
| "float_of JNull = Inl TypeError"

section \<open>The exchange and the bot\<close>

text \<open>
  \<^verbatim>\<open>str.upper()\<close> on the ASCII letters (ticker symbols and sides are ASCII); every other
  character is left as it is.
\<close>

definition upper_char :: "char \<Rightarrow> char" where
  "upper_char c =
     (let n = of_char c :: nat in if 97 \<le> n \<and> n \<le> 122 then char_of (n - 32) else c)"

definition upper :: "string \<Rightarrow> string" where
  "upper s = map upper_char s"

text \<open>
  What the exchange client returns. One entry of \<^verbatim>\<open>exchange_info['symbols']\<close> has the
  fields the code subscripts; its filters are dictionaries of differing keys. The
  account snapshot has the three totals and the asset entries. A raw order is a
  dictionary, since the code itself allows for a missing \<^verbatim>\<open>price\<close>.
\<close>

record symbol_entry =
  symbol_name :: string
  pricePrecision :: nat
  quantityPrecision :: nat
  filters :: "(string \<rightharpoonup> string) list"

record asset_entry =
  asset :: string
  walletBalance :: string

record account =
  assets :: "asset_entry list"
  totalMarginBalance :: string
  availableBalance :: string
  totalUnrealizedProfit :: string

type_synonym raw_order = "string \<rightharpoonup> jval"

text \<open>The keyword arguments of \<^verbatim>\<open>futures_create_order\<close>.\<close>

record order_params =
  p_symbol :: string
  p_side :: string
  p_type :: string
  p_timeInForce :: "string option"
  p_quantity :: string
  p_price :: "string option"

text \<open>
  The exchange as the code meets it: the reply (or the exception) of each client call.
  Every function below takes the exchange of the moment of the call, so two calls may
  see different replies.
\<close>

record exchange =
  futures_exchange_info :: "error + symbol_entry list"
  futures_account :: "error + account"
  futures_create_order :: "order_params \<Rightarrow> error + raw_order"

datatype request =
    ExchangeInfoRequest
  | AccountRequest
  | CreateOrderRequest order_params

text \<open>
  The state of a \<^verbatim>\<open>BasicBot\<close>: its cache \<^verbatim>\<open>_symbol_info_cache\<close>, and the requests it
  has sent to the exchange so far, oldest first (a record of the network effect; the
  code keeps no such list). The logger's lines are not modelled.
\<close>

record bot =
  symbol_info_cache :: "string \<rightharpoonup> symbol_info"
  requests :: "request list"

text \<open>\<^verbatim>\<open>next(f[key] for f in filters if f['filterType'] == 'LOT_SIZE')\<close>.\<close>

fun next_lot_size :: "string \<Rightarrow> (string \<rightharpoonup> string) list \<Rightarrow> error + string" where
  "next_lot_size key [] = Inl StopIteration"
| "next_lot_size key (f # fs) =
     (case f ''filterType'' of
        None \<Rightarrow> Inl KeyError
      | Some t \<Rightarrow>
          if t = ''LOT_SIZE'' then (case f key of None \<Rightarrow> Inl KeyError | Some v \<Rightarrow> Inr v)
          else next_lot_size key fs)"

text \<open>The dictionary built at lines 76 to 81 from the matching entry.\<close>

definition extract_info :: "symbol_entry \<Rightarrow> error + symbol_info" where
  "extract_info s =
     (case next_lot_size ''minQty'' (filters s) of
        Inl e \<Rightarrow> Inl e
      | Inr m \<Rightarrow>
          (case Decimal m of
             Inl e \<Rightarrow> Inl e
           | Inr mq \<Rightarrow>
               (case next_lot_size ''stepSize'' (filters s) of
                  Inl e \<Rightarrow> Inl e
                | Inr t \<Rightarrow>
                    (case Decimal t of
                       Inl e \<Rightarrow> Inl e
                     | Inr ss \<Rightarrow>
                         Inr \<lparr>price_precision = pricePrecision s,
                              quantity_precision = quantityPrecision s,
                              min_qty = mq, step_size = ss\<rparr>))))"

text \<open>The loop of lines 74 to 84: the first entry whose symbol is \<open>symbol_upper\<close>
  decides; with none, \<^verbatim>\<open>ValueError(f"Symbol {symbol_upper} not found")\<close>.\<close>

fun scan_symbols :: "string \<Rightarrow> symbol_entry list \<Rightarrow> error + symbol_info" where
  "scan_symbols symbol_upper [] = Inl SymbolNotFound"
| "scan_symbols symbol_upper (s # ss) =
     (if symbol_name s = symbol_upper then extract_info s else scan_symbols symbol_upper ss)"

text \<open>
  \<^verbatim>\<open>get_symbol_info\<close> (lines 68 to 87). The \<^verbatim>\<open>except\<close> clause logs and re-raises, so
  every exception leaves as it came; the request was sent all the same.
\<close>

definition get_symbol_info :: "exchange \<Rightarrow> string \<Rightarrow> bot \<Rightarrow> (error + symbol_info) \<times> bot" where
  "get_symbol_info x symbol st =
     (let symbol_upper = upper symbol
      in case symbol_info_cache st symbol_upper of
           Some info \<Rightarrow> (Inr info, st)
         | None \<Rightarrow>
             (let st1 = st\<lparr>requests := requests st @ [ExchangeInfoRequest]\<rparr>
              in case futures_exchange_info x of
                   Inl e \<Rightarrow> (Inl e, st1)
                 | Inr symbols \<Rightarrow>
                     (case scan_symbols symbol_upper symbols of
                        Inl e \<Rightarrow> (Inl e, st1)
                      | Inr info \<Rightarrow>
                          (Inr info,
                           st1\<lparr>symbol_info_cache :=
                                 (symbol_info_cache st1)(symbol_upper \<mapsto> info)\<rparr>))))"

text \<open>\<^verbatim>\<open>_validate_and_format_quantity\<close> (lines 97 to 105) for a finite quantity:
  the lookup of the rules, then \<open>normalize\<close>.\<close>

definition validate_and_format_quantity ::
    "exchange \<Rightarrow> string \<Rightarrow> decimal \<Rightarrow> bot \<Rightarrow> (error + string) \<times> bot" where
  "validate_and_format_quantity x symbol quantity_dec st =
     (case get_symbol_info x symbol st of
        (Inl e, st1) \<Rightarrow> (Inl e, st1)
      | (Inr symbol_info, st1) \<Rightarrow> (normalize symbol_info quantity_dec, st1))"

text \<open>
  \<^verbatim>\<open>_format_order_response\<close> (lines 130 to 140), the specification's \<open>mapOrder\<close>. The
  entries of the result are evaluated in the order written, so the first failing one
  decides the exception.
\<close>

record order_record =
  order_id :: jval
  symbol :: jval
  side :: jval
  type :: jval
  quantity :: pyfloat
  price :: pyfloat
  status :: jval

definition getitem :: "(string \<rightharpoonup> 'v) \<Rightarrow> string \<Rightarrow> error + 'v" where
  "getitem d k = (case d k of None \<Rightarrow> Inl KeyError | Some v \<Rightarrow> Inr v)"

definition and_then :: "error + 'a \<Rightarrow> ('a \<Rightarrow> error + 'b) \<Rightarrow> error + 'b" where
  "and_then m f = (case m of Inl e \<Rightarrow> Inl e | Inr a \<Rightarrow> f a)"

definition format_order_response :: "raw_order \<Rightarrow> error + order_record" where
  "format_order_response order =
     and_then (getitem order ''orderId'') (\<lambda>oid.
     and_then (getitem order ''symbol'') (\<lambda>sym.
     and_then (getitem order ''side'') (\<lambda>sd.
     and_then (getitem order ''type'') (\<lambda>ty.
     and_then (and_then (getitem order ''origQty'') float_of) (\<lambda>qty.
     and_then (float_of (case order ''price'' of None \<Rightarrow> JInt 0 | Some p \<Rightarrow> p)) (\<lambda>pr.
     and_then (getitem order ''status'') (\<lambda>stat.
       Inr \<lparr>order_id = oid, symbol = sym, side = sd, type = ty,
            quantity = qty, price = pr, status = stat\<rparr>)))))))"

text \<open>\<^verbatim>\<open>place_market_order\<close> (lines 112 to 117).\<close>

definition place_market_order ::
    "exchange \<Rightarrow> string \<Rightarrow> string \<Rightarrow> decimal \<Rightarrow> bot \<Rightarrow> (error + order_record) \<times> bot" where
  "place_market_order x symb sd quantity_dec st =
     (case validate_and_format_quantity x symb quantity_dec st of
        (Inl e, st1) \<Rightarrow> (Inl e, st1)
      | (Inr formatted_quantity, st1) \<Rightarrow>
          (let params = \<lparr>p_symbol = upper symb, p_side = upper sd, p_type = ''MARKET'',
                         p_timeInForce = None, p_quantity = formatted_quantity,
                         p_price = None\<rparr>;
               st2 = st1\<lparr>requests := requests st1 @ [CreateOrderRequest params]\<rparr>
           in (and_then (futures_create_order x params) format_order_response, st2)))"

text \<open>
  \<^verbatim>\<open>place_limit_order\<close> (lines 119 to 125). The float \<^verbatim>\<open>price\<close> enters only as the
  string \<^verbatim>\<open>f"{price}"\<close>; \<open>price_str\<close> is that string.
\<close>

definition place_limit_order ::
    "exchange \<Rightarrow> string \<Rightarrow> string \<Rightarrow> decimal \<Rightarrow> string \<Rightarrow> bot
       \<Rightarrow> (error + order_record) \<times> bot" where
  "place_limit_order x symb sd quantity_dec price_str st =
     (case validate_and_format_quantity x symb quantity_dec st of
        (Inl e, st1) \<Rightarrow> (Inl e, st1)
      | (Inr formatted_quantity, st1) \<Rightarrow>
          (let params = \<lparr>p_symbol = upper symb, p_side = upper sd, p_type = ''LIMIT'',
                         p_timeInForce = Some ''GTC'', p_quantity = formatted_quantity,
                         p_price = Some price_str\<rparr>;
               st2 = st1\<lparr>requests := requests st1 @ [CreateOrderRequest params]\<rparr>
           in (and_then (futures_create_order x params) format_order_response, st2)))"

text \<open>
  \<^verbatim>\<open>get_account_balance\<close> (lines 58 to 66). The comprehension of line 60 converts
  each wallet balance in turn and keeps the entry when the float is \<^verbatim>\<open>> 0\<close>; a
  balance that is no numeral raises.
\<close>

fun positive_balances :: "asset_entry list \<Rightarrow> error + asset_entry list" where
  "positive_balances [] = Inr []"
| "positive_balances (b # bs) =
     (case float_of_str (walletBalance b) of
        Inl e \<Rightarrow> Inl e
      | Inr w \<Rightarrow>
          (case positive_balances bs of
             Inl e \<Rightarrow> Inl e
           | Inr r \<Rightarrow> Inr (if float_gt0 w then b # r else r)))"

record balance =
  total_margin_balance :: pyfloat
  available_balance :: pyfloat
  total_unrealized_pnl :: pyfloat
  balances :: "asset_entry list"

definition get_account_balance :: "exchange \<Rightarrow> bot \<Rightarrow> (error + balance) \<times> bot" where
  "get_account_balance x st =
     (let st1 = st\<lparr>requests := requests st @ [AccountRequest]\<rparr>
      in (and_then (futures_account x) (\<lambda>account.
          and_then (positive_balances (assets account)) (\<lambda>bs.
          and_then (float_of_str (totalMarginBalance account)) (\<lambda>tm.
          and_then (float_of_str (availableBalance account)) (\<lambda>av.
          and_then (float_of_str (totalUnrealizedProfit account)) (\<lambda>pnl.
            Inr \<lparr>total_margin_balance = tm, available_balance = av,
                 total_unrealized_pnl = pnl, balances = bs\<rparr>))))), st1))"

section \<open>A stub exchange for the scenarios\<close>

text \<open>
  A bot with an empty cache that has sent nothing yet; an exchange that lists
  \<^verbatim>\<open>BTCUSDT\<close> with the rules of the scenarios, echoes every order as order 5 with
  status \<^verbatim>\<open>NEW\<close> and no price field, and holds three assets; and the same exchange
  after it has taken \<^verbatim>\<open>BTCUSDT\<close> off its list.
\<close>

definition fresh_bot :: bot where
  "fresh_bot = \<lparr>symbol_info_cache = Map.empty, requests = []\<rparr>"

definition btc_entry :: symbol_entry where
  "btc_entry = \<lparr>symbol_name = ''BTCUSDT'', pricePrecision = 2, quantityPrecision = 3,
     filters = [[''filterType'' \<mapsto> ''PRICE_FILTER'', ''tickSize'' \<mapsto> ''0.10''],
                [''filterType'' \<mapsto> ''LOT_SIZE'', ''minQty'' \<mapsto> ''0.001'',
                 ''maxQty'' \<mapsto> ''1000'', ''stepSize'' \<mapsto> ''0.001'']]\<rparr>"

definition echo_order :: "order_params \<Rightarrow> raw_order" where
  "echo_order p =
     [''orderId'' \<mapsto> JInt 5, ''symbol'' \<mapsto> JStr (p_symbol p), ''side'' \<mapsto> JStr (p_side p),
      ''type'' \<mapsto> JStr (p_type p), ''origQty'' \<mapsto> JStr (p_quantity p),
      ''status'' \<mapsto> JStr ''NEW'']"

definition example_account :: account where
  "example_account = \<lparr>assets = [\<lparr>asset = ''USDT'', walletBalance = ''-5''\<rparr>,
       \<lparr>asset = ''BTC'', walletBalance = ''12''\<rparr>, \<lparr>asset = ''ETH'', walletBalance = ''0''\<rparr>],
     totalMarginBalance = ''7'', availableBalance = ''3'', totalUnrealizedProfit = ''-2''\<rparr>"

definition example_exchange :: exchange where
  "example_exchange = \<lparr>futures_exchange_info = Inr [btc_entry],
     futures_account = Inr example_account,
     futures_create_order = (\<lambda>p. Inr (echo_order p))\<rparr>"

definition delisted_exchange :: exchange where
  "delisted_exchange = example_exchange\<lparr>futures_exchange_info := Inr []\<rparr>"

text \<open>The order of the specification's market scenario, and the bot after its first
  successful lookup of \<^verbatim>\<open>BTCUSDT\<close>.\<close>

definition market_params :: order_params where
  "market_params = \<lparr>p_symbol = ''BTCUSDT'', p_side = ''BUY'', p_type = ''MARKET'',
     p_timeInForce = None, p_quantity = ''0.010'', p_price = None\<rparr>"

definition cached_bot :: bot where
  "cached_bot = \<lparr>symbol_info_cache = [''BTCUSDT'' \<mapsto> example_rules],
     requests = [ExchangeInfoRequest]\<rparr>"

text \<open>Two further rules records: the scenario rules with only two places, and rules
  whose minimum is no multiple of the step.\<close>

definition coarse_rules :: symbol_info where
  "coarse_rules = example_rules\<lparr>quantity_precision := 2\<rparr>"

definition uneven_rules :: symbol_info where
  "uneven_rules = \<lparr>price_precision = 2, quantity_precision = 3,
     min_qty = \<lparr>dsign = False, coef = 5, dexp = - 3\<rparr>,
     step_size = \<lparr>dsign = False, coef = 2, dexp = - 3\<rparr>\<rparr>"

section \<open>Digit strings: facts\<close>

lemma digit_char_is_digit: "d < 10 \<Longrightarrow> is_digit (digit_char d)"
proof -
  assume "d < 10"
  then have "d \<in> {0, 1, 2, 3, 4, 5, 6, 7, 8, 9}" by auto
  then show ?thesis
    by (auto simp: is_digit_def digit_char_def digit_val_def)
qed

lemma digit_val_digit_char: "d < 10 \<Longrightarrow> digit_val (digit_char d) = Some d"
proof -
  assume "d < 10"
  then have "d \<in> {0, 1, 2, 3, 4, 5, 6, 7, 8, 9}" by auto
  then show ?thesis
    by (auto simp: digit_char_def digit_val_def)
qed

lemma str_nat_digits: "c \<in> set (str_nat n) \<Longrightarrow> is_digit c"
proof (induction n rule: str_nat.induct)
  case (1 n)
  show ?case
  proof (cases "n < 10")
    case True
    with "1.prems" show ?thesis
      by (simp add: str_nat.simps [of n] digit_char_is_digit)
  next
    case False
    with "1.prems" "1.IH" show ?thesis
      by (auto simp: str_nat.simps [of n] digit_char_is_digit)
  qed
qed

lemma str_nat_nonempty: "str_nat n \<noteq> []"
  by (subst str_nat.simps) simp

lemma is_digit_not_point: "is_digit c \<Longrightarrow> c \<noteq> CHR ''.''"
  by (auto simp: is_digit_def digit_val_def)

lemma nat_of_digits_append:
  "nat_of_digits acc (xs @ ys) =
     (case nat_of_digits acc xs of None \<Rightarrow> None | Some a \<Rightarrow> nat_of_digits a ys)"
  by (induction xs arbitrary: acc) (auto split: option.splits)

lemma nat_of_digits_str_nat: "nat_of_digits 0 (str_nat n) = Some n"
proof (induction n rule: str_nat.induct)
  case (1 n)
  show ?case
  proof (cases "n < 10")
    case True
    then show ?thesis
      by (simp add: str_nat.simps [of n] digit_val_digit_char)
  next
    case False
    with "1.IH" show ?thesis
      by (simp add: str_nat.simps [of n] nat_of_digits_append digit_val_digit_char)
  qed
qed

lemma nat_of_digits_zeros:
  "nat_of_digits 0 (replicate k (CHR ''0'') @ xs) = nat_of_digits 0 xs"
  by (induction k) (simp_all add: digit_val_def)

lemma replicate_numeral_Cons: "replicate (numeral k) x = x # replicate (pred_numeral k) x"
  by (simp add: numeral_eq_Suc)

section \<open>The shape of a formatted quantity\<close>

lemma dexp_rescale: "dexp (rescale d e) = e"
  by (simp add: rescale_def)

text \<open>
  A formatted decimal is a sign, a non-empty run of integer digits and, unless no
  places were asked for, a point and exactly that many digits; read as a number, the
  digits are the coefficient of the rescaled decimal.
\<close>

lemma format_f_shape:
  "\<exists>ip fp. format_f d n = (if dsign (rescale d (- int n)) then ''-'' else []) @ ip
        @ (if n = 0 then [] else CHR ''.'' # fp)
     \<and> ip \<noteq> [] \<and> (\<forall>c\<in>set ip. is_digit c) \<and> length fp = n \<and> (\<forall>c\<in>set fp. is_digit c)
     \<and> nat_of_digits 0 (ip @ fp) = Some (coef (rescale d (- int n)))"
proof -
  define r where "r = rescale d (- int n)"
  define ds where "ds = str_nat (coef r)"
  define dotplace where "dotplace = dexp r + int (length ds)"
  have er: "dexp r = - int n" by (simp add: r_def dexp_rescale)
  have ds_ne: "ds \<noteq> []" by (simp add: ds_def str_nat_nonempty)
  have ds_dig: "\<forall>c\<in>set ds. is_digit c" by (auto simp: ds_def dest: str_nat_digits)
  have ds_val: "nat_of_digits 0 ds = Some (coef r)" by (simp add: ds_def nat_of_digits_str_nat)
  have zero_dig: "is_digit (CHR ''0'')" by (simp add: is_digit_def digit_val_def)
  have dp: "dotplace = int (length ds) - int n" by (simp add: dotplace_def er)
  show ?thesis
  proof (cases "dotplace < 0")
    case True
    define fp where "fp = replicate (nat (- dotplace)) (CHR ''0'') @ ds"
    have f: "format_f d n = (if dsign r then ''-'' else []) @ ''0'' @ CHR ''.'' # fp"
      using True ds_ne
      by (simp add: format_f_def Let_def r_def [symmetric] ds_def [symmetric]
          dotplace_def [symmetric] fp_def)
    have n0: "n \<noteq> 0" using True dp by auto
    have len: "length fp = n" using True dp by (simp add: fp_def)
    have dig: "\<forall>c\<in>set fp. is_digit c" using ds_dig zero_dig by (auto simp: fp_def)
    have val: "nat_of_digits 0 (''0'' @ fp) = Some (coef r)"
      using ds_val by (simp add: fp_def digit_val_def nat_of_digits_zeros)
    show ?thesis
      apply (rule exI [of _ "''0''"], rule exI [of _ fp])
      using f n0 len dig val zero_dig by (simp add: r_def)
  next
    case False
    then have le: "n \<le> length ds" using dp by simp
    define k where "k = length ds - n"
    have k: "nat dotplace = k" using dp le by (simp add: k_def)
    have notgt: "\<not> dotplace > int (length ds)" using dp by simp
    define ip where "ip = (if take k ds = [] then ''0'' else take k ds)"
    define fp where "fp = drop k ds"
    have len: "length fp = n" using le by (simp add: fp_def k_def)
    have fpe: "fp = [] \<longleftrightarrow> n = 0" using len by auto
    have f: "format_f d n = (if dsign r then ''-'' else []) @ ip
        @ (if n = 0 then [] else CHR ''.'' # fp)"
      using False notgt fpe
      by (simp add: format_f_def Let_def r_def [symmetric] ds_def [symmetric]
          dotplace_def [symmetric] k ip_def fp_def)
    have ipne: "ip \<noteq> []" by (simp add: ip_def)
    have ipdig: "\<forall>c\<in>set ip. is_digit c"
      using ds_dig zero_dig by (auto simp: ip_def dest: in_set_takeD)
    have fpdig: "\<forall>c\<in>set fp. is_digit c"
      using ds_dig by (auto simp: fp_def dest: in_set_dropD)
    have val: "nat_of_digits 0 (ip @ fp) = Some (coef r)"
    proof (cases "take k ds = []")
      case True
      then have "k = 0" using ds_ne by simp
      then show ?thesis using ds_val True by (simp add: ip_def fp_def digit_val_def)
    next
      case False
      then show ?thesis using ds_val by (simp add: ip_def fp_def)
    qed
    show ?thesis
      apply (rule exI [of _ ip], rule exI [of _ fp])
      using f ipne ipdig fpdig len val by (simp add: r_def)
  qed
qed

lemma dropWhile_digits:
  "\<forall>c\<in>set ip. is_digit c \<Longrightarrow>
     dropWhile (\<lambda>c. c \<noteq> CHR ''.'') (ip @ r) = dropWhile (\<lambda>c. c \<noteq> CHR ''.'') r"
  by (induction ip) (auto dest: is_digit_not_point)

lemma fraction_part_shape:
  assumes "\<forall>c\<in>set ip. is_digit c"
  shows "fraction_part ((if neg then ''-'' else []) @ ip @ (if n = 0 then [] else CHR ''.'' # fp))
     = (if n = 0 then [] else fp)"
proof -
  have "dropWhile (\<lambda>c. c \<noteq> CHR ''.'') ((if neg then ''-'' else []) @ ip @ t)
      = dropWhile (\<lambda>c. c \<noteq> CHR ''.'') t" for t
    using assms by (simp add: dropWhile_digits)
  then show ?thesis
    by (simp add: fraction_part_def)
qed

lemma normalize_Inr:
  "normalize r q = Inr s \<Longrightarrow> \<exists>d. s = format_f d (quantity_precision r)"
  by (auto simp: normalize_def split: if_splits sum.splits)

text \<open>The unfolding that evaluates the decimal operations on numerals.\<close>

lemmas decimal_eval = replicate_numeral_Cons normalize_def dlt_def dval_def p10_def
  floordiv_def mul_def fix_ctx_def ndigits_def str_nat.simps format_f_def rescale_def
  round_half_even_def prec_def Emax_def Emin_def Etiny_def Etop_def digit_char_def Let_def

section \<open>The quantity normaliser: rejection and format\<close>

text \<open>
  C3. Whatever the rules, a quantity below their minimum quantity is rejected with
  \<open>BelowMinimum\<close> and no formatted quantity is returned. The witness is the
  specification's scenario: \<open>0.0005\<close> against a minimum of \<open>0.001\<close>.
\<close>

theorem normalize_below_minimum:
  "dval q < dval (min_qty r) \<Longrightarrow> normalize r q = Inl BelowMinimum"
  by (simp add: normalize_def dlt_def)

theorem normalize_below_minimum_witness:
  "dval \<lparr>dsign = False, coef = 5, dexp = - 4\<rparr> < dval (min_qty example_rules)
   \<and> normalize example_rules \<lparr>dsign = False, coef = 5, dexp = - 4\<rparr> = Inl BelowMinimum"
  using normalize_below_minimum [of "\<lparr>dsign = False, coef = 5, dexp = - 4\<rparr>" example_rules]
  by (simp add: example_rules_def dval_def p10_def)

text \<open>
  A finite quantity that is accepted comes back with exactly \<open>quantity_precision\<close>
  digits after the decimal point, trailing zeros included (with a precision of zero
  the string has no point and no digit after it).
\<close>

lemma normalize_finite_fraction_digits:
  assumes "normalize r q = Inr s"
  shows "length (fraction_part s) = quantity_precision r
    \<and> (\<forall>c\<in>set (fraction_part s). is_digit c)"
proof -
  from assms obtain d where s: "s = format_f d (quantity_precision r)"
    by (auto dest: normalize_Inr)
  obtain ip fp where
    f: "format_f d (quantity_precision r) =
          (if dsign (rescale d (- int (quantity_precision r))) then ''-'' else []) @ ip
          @ (if quantity_precision r = 0 then [] else CHR ''.'' # fp)"
    and ip: "\<forall>c\<in>set ip. is_digit c" and fp: "\<forall>c\<in>set fp. is_digit c"
    and len: "length fp = quantity_precision r"
    using format_f_shape [of d "quantity_precision r"] by blast
  have "fraction_part s = (if quantity_precision r = 0 then [] else fp)"
    unfolding s f using ip by (rule fraction_part_shape)
  then show ?thesis using len fp by auto
qed

section \<open>The trading rules cache\<close>

lemma upper_char_idem: "upper_char (upper_char c) = upper_char c"
proof (cases "97 \<le> (of_char c :: nat) \<and> (of_char c :: nat) \<le> 122")
  case True
  define d where "d = char_of (of_char c - 32 :: nat)"
  from True have "(of_char c - 32 :: nat) < 256" by linarith
  then have "(of_char c - 32 :: nat) mod 256 = of_char c - 32" by (rule mod_less)
  then have "(of_char d :: nat) = of_char c - 32" by (simp add: d_def)
  with True have "\<not> (97 \<le> (of_char d :: nat) \<and> (of_char d :: nat) \<le> 122)" by linarith
  then have "upper_char d = d" unfolding upper_char_def Let_def by (rule if_not_P)
  moreover from True have "upper_char c = d" by (simp add: upper_char_def Let_def d_def)
  ultimately show ?thesis by simp
next
  case False
  then have "upper_char c = c" unfolding upper_char_def Let_def by (rule if_not_P)
  then show ?thesis by simp
qed

lemma upper_idem: "upper (upper s) = upper s"
  by (simp add: upper_def upper_char_idem)

lemmas upper_eval = upper_def upper_char_def char_of_def bit_iff_odd_drop_bit drop_bit_eq_div

lemmas parse_eval = Decimal_def parse_exponent_def digit_val_def

lemma extract_btc: "extract_info btc_entry = Inr example_rules"
  by (simp add: extract_info_def btc_entry_def example_rules_def parse_eval)

lemma upper_btc: "upper ''btcusdt'' = ''BTCUSDT''"
  by (simp add: upper_eval)

lemma get_symbol_info_hit:
  "symbol_info_cache st (upper symb) = Some info \<Longrightarrow> get_symbol_info x symb st = (Inr info, st)"
  by (simp add: get_symbol_info_def)

lemma get_symbol_info_miss:
  "symbol_info_cache st (upper symb) = None \<Longrightarrow>
   get_symbol_info x symb st =
     (let st1 = st\<lparr>requests := requests st @ [ExchangeInfoRequest]\<rparr>
      in case and_then (futures_exchange_info x) (scan_symbols (upper symb)) of
           Inl e \<Rightarrow> (Inl e, st1)
         | Inr info \<Rightarrow>
             (Inr info, st1\<lparr>symbol_info_cache := (symbol_info_cache st)(upper symb \<mapsto> info)\<rparr>))"
  by (simp add: get_symbol_info_def and_then_def Let_def split: sum.splits)

lemma get_symbol_info_Inr:
  assumes "get_symbol_info x symb st = (Inr info, st1)"
  shows "symbol_info_cache st1 (upper symb) = Some info"
    and "length (requests st1) \<le> length (requests st) + 1"
  using assms
  by (auto simp: get_symbol_info_def Let_def split: option.splits sum.splits)

lemma scan_symbols_find:
  "scan_symbols u symbols =
     (case List.find (\<lambda>s. symbol_name s = u) symbols of
        None \<Rightarrow> Inl SymbolNotFound | Some s \<Rightarrow> extract_info s)"
  by (induction symbols) auto

text \<open>
  C6 (as amended). When a lookup succeeds, a second lookup of the same symbol returns
  the identical rules and sends nothing, whatever the exchange would answer by then, so
  the two lookups send at most one request in total; and on a cache hit the stored
  rules are returned and nothing is sent.
\<close>

theorem get_symbol_info_twice:
  "(symbol_info_cache st (upper symb) = Some info \<longrightarrow>
      get_symbol_info x symb st = (Inr info, st))
   \<and> (get_symbol_info x symb st = (Inr info, st1) \<longrightarrow>
      get_symbol_info x' symb st1 = (Inr info, st1)
      \<and> length (requests st1) \<le> length (requests st) + 1)"
  by (auto simp: get_symbol_info_hit dest: get_symbol_info_Inr)

lemma lookup_btc:
  "get_symbol_info example_exchange ''BTCUSDT'' fresh_bot =
     (Inr example_rules,
      \<lparr>symbol_info_cache = [''BTCUSDT'' \<mapsto> example_rules], requests = [ExchangeInfoRequest]\<rparr>)"
  by (simp add: get_symbol_info_miss fresh_bot_def example_exchange_def and_then_def
      extract_btc upper_eval btc_entry_def [THEN arg_cong [of _ _ symbol_name]])

theorem get_symbol_info_twice_witness:
  "symbol_info_cache \<lparr>symbol_info_cache = [''BTCUSDT'' \<mapsto> example_rules],
       requests = [ExchangeInfoRequest]\<rparr> (upper ''BTCUSDT'') = Some example_rules
   \<and> get_symbol_info example_exchange ''BTCUSDT'' fresh_bot =
       (Inr example_rules,
        \<lparr>symbol_info_cache = [''BTCUSDT'' \<mapsto> example_rules], requests = [ExchangeInfoRequest]\<rparr>)
   \<and> get_symbol_info delisted_exchange ''BTCUSDT''
         \<lparr>symbol_info_cache = [''BTCUSDT'' \<mapsto> example_rules], requests = [ExchangeInfoRequest]\<rparr> =
       (Inr example_rules,
        \<lparr>symbol_info_cache = [''BTCUSDT'' \<mapsto> example_rules], requests = [ExchangeInfoRequest]\<rparr>)
   \<and> length (requests \<lparr>symbol_info_cache = [''BTCUSDT'' \<mapsto> example_rules],
         requests = [ExchangeInfoRequest]\<rparr>) \<le> length (requests fresh_bot) + 1"
  using get_symbol_info_twice [of "\<lparr>symbol_info_cache = [''BTCUSDT'' \<mapsto> example_rules],
       requests = [ExchangeInfoRequest]\<rparr>" "''BTCUSDT''" example_rules delisted_exchange]
    get_symbol_info_twice [of fresh_bot "''BTCUSDT''" example_rules example_exchange
      "\<lparr>symbol_info_cache = [''BTCUSDT'' \<mapsto> example_rules], requests = [ExchangeInfoRequest]\<rparr>"
      delisted_exchange]
    lookup_btc
  by (simp add: upper_eval fresh_bot_def)

text \<open>
  The claim as stated fails for a symbol the exchange does not list: the failure is
  not cached, and two consecutive lookups send two requests.
\<close>

theorem unknown_symbol_fetched_twice:
  "get_symbol_info example_exchange ''NOPE'' fresh_bot =
     (Inl SymbolNotFound, \<lparr>symbol_info_cache = Map.empty, requests = [ExchangeInfoRequest]\<rparr>)
   \<and> get_symbol_info example_exchange ''NOPE''
       \<lparr>symbol_info_cache = Map.empty, requests = [ExchangeInfoRequest]\<rparr> =
     (Inl SymbolNotFound,
      \<lparr>symbol_info_cache = Map.empty, requests = [ExchangeInfoRequest, ExchangeInfoRequest]\<rparr>)"
  by (simp add: get_symbol_info_miss fresh_bot_def example_exchange_def and_then_def
      upper_eval btc_entry_def)

text \<open>
  C10 (as amended). A lookup under any casing behaves exactly as the lookup of the
  uppercase symbol (same result, same cache, same requests); when it succeeds the
  rules are cached under the uppercase symbol, and a following lookup of the uppercase
  symbol returns the same rules and sends nothing.
\<close>

theorem get_symbol_info_case_insensitive:
  "get_symbol_info x (upper s) st = get_symbol_info x s st
   \<and> (get_symbol_info x s st = (Inr info, st1) \<longrightarrow>
        symbol_info_cache st1 (upper s) = Some info
        \<and> get_symbol_info x' (upper s) st1 = (Inr info, st1)
        \<and> length (requests st1) \<le> length (requests st) + 1)"
proof -
  have "get_symbol_info x (upper s) st = get_symbol_info x s st"
    by (simp add: get_symbol_info_def upper_idem)
  moreover have "symbol_info_cache st1 (upper s) = Some info
        \<and> get_symbol_info x' (upper s) st1 = (Inr info, st1)
        \<and> length (requests st1) \<le> length (requests st) + 1"
    if "get_symbol_info x s st = (Inr info, st1)"
    using get_symbol_info_Inr [OF that]
    by (simp add: get_symbol_info_hit upper_idem)
  ultimately show ?thesis by blast
qed

lemma lookup_btc_lower:
  "get_symbol_info example_exchange ''btcusdt'' fresh_bot =
     (Inr example_rules,
      \<lparr>symbol_info_cache = [''BTCUSDT'' \<mapsto> example_rules], requests = [ExchangeInfoRequest]\<rparr>)"
  by (simp add: get_symbol_info_miss fresh_bot_def example_exchange_def and_then_def
      extract_btc upper_eval btc_entry_def [THEN arg_cong [of _ _ symbol_name]])

theorem get_symbol_info_case_insensitive_witness:
  "get_symbol_info example_exchange (upper ''btcusdt'') fresh_bot =
     get_symbol_info example_exchange ''btcusdt'' fresh_bot
   \<and> get_symbol_info example_exchange ''btcusdt'' fresh_bot =
     (Inr example_rules,
      \<lparr>symbol_info_cache = [''BTCUSDT'' \<mapsto> example_rules], requests = [ExchangeInfoRequest]\<rparr>)
   \<and> get_symbol_info example_exchange ''BTCUSDT''
        \<lparr>symbol_info_cache = [''BTCUSDT'' \<mapsto> example_rules], requests = [ExchangeInfoRequest]\<rparr> =
     (Inr example_rules,
      \<lparr>symbol_info_cache = [''BTCUSDT'' \<mapsto> example_rules], requests = [ExchangeInfoRequest]\<rparr>)"
  using get_symbol_info_case_insensitive [of example_exchange "''btcusdt''" fresh_bot example_rules
      "\<lparr>symbol_info_cache = [''BTCUSDT'' \<mapsto> example_rules], requests = [ExchangeInfoRequest]\<rparr>"
      example_exchange]
    lookup_btc_lower upper_btc
  by simp

text \<open>
  The claim as stated fails for a symbol the exchange does not list: the lookups of
  its two casings send two requests.
\<close>

theorem unknown_symbol_two_casings:
  "get_symbol_info example_exchange ''nope'' fresh_bot =
     (Inl SymbolNotFound, \<lparr>symbol_info_cache = Map.empty, requests = [ExchangeInfoRequest]\<rparr>)
   \<and> get_symbol_info example_exchange (upper ''nope'')
       \<lparr>symbol_info_cache = Map.empty, requests = [ExchangeInfoRequest]\<rparr> =
     (Inl SymbolNotFound,
      \<lparr>symbol_info_cache = Map.empty, requests = [ExchangeInfoRequest, ExchangeInfoRequest]\<rparr>)"
  by (simp add: get_symbol_info_miss fresh_bot_def example_exchange_def and_then_def
      upper_eval btc_entry_def)

text \<open>
  C7 (as amended). On a cache miss, with the exchange answering with its instrument
  list: when no entry carries the uppercase symbol the lookup fails with
  \<open>SymbolNotFound\<close> and the cache is unchanged; when the first entry that carries it
  yields rules, these are stored under the uppercase symbol and returned.
\<close>

theorem get_symbol_info_on_miss:
  assumes "symbol_info_cache st (upper symb) = None"
    and "futures_exchange_info x = Inr symbols"
  shows "(List.find (\<lambda>s. symbol_name s = upper symb) symbols = None \<longrightarrow>
            get_symbol_info x symb st =
              (Inl SymbolNotFound, st\<lparr>requests := requests st @ [ExchangeInfoRequest]\<rparr>))
       \<and> (List.find (\<lambda>s. symbol_name s = upper symb) symbols = Some s
            \<and> extract_info s = Inr info \<longrightarrow>
            get_symbol_info x symb st =
              (Inr info, st\<lparr>requests := requests st @ [ExchangeInfoRequest],
                           symbol_info_cache := (symbol_info_cache st)(upper symb \<mapsto> info)\<rparr>))"
  using assms
  by (simp add: get_symbol_info_miss and_then_def scan_symbols_find)

theorem get_symbol_info_on_miss_witness:
  "symbol_info_cache fresh_bot (upper ''btcusdt'') = None
   \<and> futures_exchange_info example_exchange = Inr [btc_entry]
   \<and> List.find (\<lambda>s. symbol_name s = upper ''nope'') [btc_entry] = None
   \<and> get_symbol_info example_exchange ''nope'' fresh_bot =
       (Inl SymbolNotFound, fresh_bot\<lparr>requests := requests fresh_bot @ [ExchangeInfoRequest]\<rparr>)
   \<and> List.find (\<lambda>s. symbol_name s = upper ''btcusdt'') [btc_entry] = Some btc_entry
   \<and> extract_info btc_entry = Inr example_rules
   \<and> get_symbol_info example_exchange ''btcusdt'' fresh_bot =
       (Inr example_rules,
        fresh_bot\<lparr>requests := requests fresh_bot @ [ExchangeInfoRequest],
           symbol_info_cache := (symbol_info_cache fresh_bot)(upper ''btcusdt'' \<mapsto> example_rules)\<rparr>)"
  using get_symbol_info_on_miss [of fresh_bot "''nope''" example_exchange "[btc_entry]" btc_entry example_rules]
    get_symbol_info_on_miss [of fresh_bot "''btcusdt''" example_exchange "[btc_entry]" btc_entry example_rules]
    extract_btc
  by (simp add: fresh_bot_def example_exchange_def upper_eval
      btc_entry_def [THEN arg_cong [of _ _ symbol_name]])

text \<open>
  The claim as stated fails on a cache hit: a symbol that was looked up while listed
  is still answered from the cache once the exchange lists it no more.
\<close>

theorem cached_symbol_survives_delisting:
  "futures_exchange_info delisted_exchange = Inr []
   \<and> get_symbol_info delisted_exchange ''BTCUSDT''
        (snd (get_symbol_info example_exchange ''BTCUSDT'' fresh_bot)) =
      (Inr example_rules, snd (get_symbol_info example_exchange ''BTCUSDT'' fresh_bot))"
  by (simp add: lookup_btc get_symbol_info_hit upper_eval delisted_exchange_def)

section \<open>Floats\<close>

lemma p2_pos: "0 < p2 e"
  by (simp add: p2_def)

lemma round_half_even_rat_nonneg: "0 \<le> m \<Longrightarrow> 0 \<le> round_half_even_rat m"
  by (auto simp: round_half_even_rat_def Let_def)

lemma round_binary64_gt0: "float_gt0 (round_binary64 v) \<Longrightarrow> 0 < v"
proof (rule ccontr)
  assume g: "float_gt0 (round_binary64 v)" and n: "\<not> 0 < v"
  show False
  proof (cases "v = 0")
    case True
    with g show False by (simp add: round_binary64_def)
  next
    case False
    define u where "u = p2 (max (floor_log2 \<bar>v\<bar>) (- 1022) - 52)"
    define r where "r = of_int (round_half_even_rat (\<bar>v\<bar> / u)) * u"
    have "0 < u" by (simp add: u_def p2_pos)
    then have "0 \<le> \<bar>v\<bar> / u" by simp
    then have "0 \<le> round_half_even_rat (\<bar>v\<bar> / u)" by (rule round_half_even_rat_nonneg)
    with \<open>0 < u\<close> have "0 \<le> r" by (simp add: r_def)
    from False n have rb: "round_binary64 v = (if r \<ge> p2 1024 then NegInf else Fin (- r))"
      by (simp add: round_binary64_def Let_def u_def r_def)
    with g \<open>0 \<le> r\<close> show False by (auto split: if_splits)
  qed
qed

lemma round_binary64_0: "round_binary64 0 = Fin 0"
  by (simp add: round_binary64_def)

lemma float_of_JInt_0: "float_of (JInt 0) = Inr (Fin 0)"
  by (simp add: round_binary64_def)

text \<open>Unfolding \<open>ilog2\<close> on numerals only, for evaluation.\<close>

lemma ilog2_numeral:
  "ilog2 (numeral k) = (if (numeral k :: nat) < 2 then 0 else Suc (ilog2 (numeral k div 2)))"
  by (rule ilog2.simps)

lemma ilog2_0: "ilog2 0 = 0" and ilog2_1: "ilog2 1 = 0"
  by (simp_all add: ilog2.simps)

section \<open>The order gateway\<close>

lemma and_then_Inr: "and_then (Inr a) f = f a" and and_then_Inl: "and_then (Inl e) f = Inl e"
  by (simp_all add: and_then_def)

text \<open>
  C5. \<open>format_order_response\<close> is a function of the raw order alone (it takes and
  returns no bot state and sends nothing). On every raw order that has the fields
  \<^verbatim>\<open>orderId\<close>, \<^verbatim>\<open>symbol\<close>, \<^verbatim>\<open>side\<close>, \<^verbatim>\<open>type\<close>, \<^verbatim>\<open>status\<close> and a numeric
  \<^verbatim>\<open>origQty\<close> and that lacks a \<^verbatim>\<open>price\<close>, it returns the order record with these
  fields and price zero. The witness is the specification's market order scenario.
\<close>

theorem format_order_response_without_price:
  assumes "raw ''orderId'' = Some oid" and "raw ''symbol'' = Some symb"
    and "raw ''side'' = Some sd" and "raw ''type'' = Some ty"
    and "raw ''origQty'' = Some q" and "float_of q = Inr qty"
    and "raw ''status'' = Some stat" and "raw ''price'' = None"
  shows "format_order_response raw =
    Inr \<lparr>order_id = oid, symbol = symb, side = sd, type = ty,
         quantity = qty, price = Fin 0, status = stat\<rparr>"
  using assms
  by (simp add: format_order_response_def getitem_def and_then_def round_binary64_0)

lemma float_of_str_010: "float_of_str ''0.010'' = Inr (round_binary64 (1 / 100))"
  by (simp add: float_of_str_def parse_eval dval_def p10_def)

theorem format_order_response_without_price_witness:
  "echo_order market_params ''orderId'' = Some (JInt 5)
   \<and> echo_order market_params ''symbol'' = Some (JStr ''BTCUSDT'')
   \<and> echo_order market_params ''side'' = Some (JStr ''BUY'')
   \<and> echo_order market_params ''type'' = Some (JStr ''MARKET'')
   \<and> echo_order market_params ''origQty'' = Some (JStr ''0.010'')
   \<and> float_of (JStr ''0.010'') = Inr (round_binary64 (1 / 100))
   \<and> echo_order market_params ''status'' = Some (JStr ''NEW'')
   \<and> echo_order market_params ''price'' = None
   \<and> format_order_response (echo_order market_params) =
       Inr \<lparr>order_id = JInt 5, symbol = JStr ''BTCUSDT'', side = JStr ''BUY'',
            type = JStr ''MARKET'', quantity = round_binary64 (1 / 100), price = Fin 0,
            status = JStr ''NEW''\<rparr>"
  using format_order_response_without_price [of "echo_order market_params" "JInt 5"
      "JStr ''BTCUSDT''" "JStr ''BUY''" "JStr ''MARKET''" "JStr ''0.010''"
      "round_binary64 (1 / 100)" "JStr ''NEW''"]
    float_of_str_010
  by (simp add: echo_order_def market_params_def)

text \<open>
  C9. Once the rules of the symbol are known, \<open>place_limit_order\<close> normalises the
  quantity with \<open>normalize\<close>; when that succeeds it sends one order of type
  \<^verbatim>\<open>LIMIT\<close>, time in force \<^verbatim>\<open>GTC\<close>, the formatted quantity and the price string
  exactly as given (whatever the price precision of the rules), and maps the reply
  with \<open>format_order_response\<close>; when the normaliser rejects, nothing is sent.
\<close>

theorem place_limit_order_steps:
  assumes "get_symbol_info x symb st = (Inr info, st1)"
  shows "(normalize info q = Inr fq \<longrightarrow>
           place_limit_order x symb sd q price_str st =
             (and_then
                (futures_create_order x
                   \<lparr>p_symbol = upper symb, p_side = upper sd, p_type = ''LIMIT'',
                    p_timeInForce = Some ''GTC'', p_quantity = fq, p_price = Some price_str\<rparr>)
                format_order_response,
              st1\<lparr>requests := requests st1 @
                 [CreateOrderRequest
                    \<lparr>p_symbol = upper symb, p_side = upper sd, p_type = ''LIMIT'',
                     p_timeInForce = Some ''GTC'', p_quantity = fq,
                     p_price = Some price_str\<rparr>]\<rparr>))
       \<and> (normalize info q = Inl e \<longrightarrow>
           place_limit_order x symb sd q price_str st = (Inl e, st1))"
  using assms
  by (simp add: place_limit_order_def validate_and_format_quantity_def Let_def)

lemma normalize_example_35:
  "normalize example_rules \<lparr>dsign = False, coef = 35, dexp = - 4\<rparr> = Inr ''0.003''"
  by (simp add: example_rules_def decimal_eval)

lemma float_of_str_003: "float_of_str ''0.003'' = Inr (round_binary64 (3 / 1000))"
  by (simp add: float_of_str_def parse_eval dval_def p10_def)

theorem place_limit_order_steps_witness:
  "get_symbol_info example_exchange ''btcusdt'' fresh_bot = (Inr example_rules, cached_bot)
   \<and> normalize example_rules \<lparr>dsign = False, coef = 35, dexp = - 4\<rparr> = Inr ''0.003''
   \<and> place_limit_order example_exchange ''btcusdt'' ''buy''
         \<lparr>dsign = False, coef = 35, dexp = - 4\<rparr> ''50000.123456'' fresh_bot =
       (Inr \<lparr>order_id = JInt 5, symbol = JStr ''BTCUSDT'', side = JStr ''BUY'',
             type = JStr ''LIMIT'', quantity = round_binary64 (3 / 1000), price = Fin 0,
             status = JStr ''NEW''\<rparr>,
        cached_bot\<lparr>requests := [ExchangeInfoRequest,
           CreateOrderRequest
             \<lparr>p_symbol = ''BTCUSDT'', p_side = ''BUY'', p_type = ''LIMIT'',
              p_timeInForce = Some ''GTC'', p_quantity = ''0.003'',
              p_price = Some ''50000.123456''\<rparr>]\<rparr>)
   \<and> normalize example_rules \<lparr>dsign = False, coef = 5, dexp = - 4\<rparr> = Inl BelowMinimum
   \<and> place_limit_order example_exchange ''btcusdt'' ''buy''
         \<lparr>dsign = False, coef = 5, dexp = - 4\<rparr> ''50000.123456'' fresh_bot =
       (Inl BelowMinimum, cached_bot)"
proof -
  have l: "get_symbol_info example_exchange ''btcusdt'' fresh_bot = (Inr example_rules, cached_bot)"
    by (simp add: lookup_btc_lower cached_bot_def)
  have b: "normalize example_rules \<lparr>dsign = False, coef = 5, dexp = - 4\<rparr> = Inl BelowMinimum"
    by (simp add: example_rules_def normalize_def dlt_def dval_def p10_def)
  have u: "upper ''btcusdt'' = ''BTCUSDT''" "upper ''buy'' = ''BUY''"
    by (simp_all add: upper_eval)
  have f: "format_order_response (echo_order
             \<lparr>p_symbol = ''BTCUSDT'', p_side = ''BUY'', p_type = ''LIMIT'',
              p_timeInForce = Some ''GTC'', p_quantity = ''0.003'',
              p_price = Some ''50000.123456''\<rparr>) =
           Inr \<lparr>order_id = JInt 5, symbol = JStr ''BTCUSDT'', side = JStr ''BUY'',
             type = JStr ''LIMIT'', quantity = round_binary64 (3 / 1000), price = Fin 0,
             status = JStr ''NEW''\<rparr>"
    by (simp add: format_order_response_def getitem_def and_then_def echo_order_def
        float_of_str_003 round_binary64_0)
  show ?thesis
    using place_limit_order_steps [OF l, of "\<lparr>dsign = False, coef = 35, dexp = - 4\<rparr>"
        "''0.003''" "''buy''" "''50000.123456''" BelowMinimum]
      place_limit_order_steps [OF l, of "\<lparr>dsign = False, coef = 5, dexp = - 4\<rparr>"
        "''0.003''" "''buy''" "''50000.123456''" BelowMinimum]
      l b normalize_example_35 f
    by (simp add: u example_exchange_def and_then_def cached_bot_def)
qed

section \<open>The account balance\<close>

lemma positive_balances_filter:
  "positive_balances bs = Inr r \<Longrightarrow>
     r = filter (\<lambda>b. case float_of_str (walletBalance b) of Inl _ \<Rightarrow> False | Inr w \<Rightarrow> float_gt0 w) bs"
  by (induction bs arbitrary: r) (auto split: sum.splits if_splits)

lemma positive_balances_total:
  "list_all (\<lambda>b. \<exists>w. float_of_str (walletBalance b) = Inr w) bs \<Longrightarrow>
     \<exists>r. positive_balances bs = Inr r"
  by (induction bs) auto

lemma float_of_str_gt0:
  "float_of_str s = Inr w \<Longrightarrow> float_gt0 w \<Longrightarrow> \<exists>d. Decimal s = Inr d \<and> 0 < dval d"
  by (auto simp: float_of_str_def split: sum.splits dest: round_binary64_gt0)

text \<open>
  C8 (as amended). For every account snapshot whose three totals and whose wallet
  balances are numerals, \<open>get_account_balance\<close> sends one account request and
  returns the three totals as floats together with exactly the asset entries whose
  wallet balance, as a float, is greater than zero, in the order of the snapshot;
  every entry it returns has a wallet balance above zero.
\<close>

theorem get_account_balance_result:
  assumes "futures_account x = Inr acct"
    and "float_of_str (totalMarginBalance acct) = Inr tm"
    and "float_of_str (availableBalance acct) = Inr av"
    and "float_of_str (totalUnrealizedProfit acct) = Inr pnl"
    and "list_all (\<lambda>b. \<exists>w. float_of_str (walletBalance b) = Inr w) (assets acct)"
  shows "\<exists>bs. get_account_balance x st =
           (Inr \<lparr>total_margin_balance = tm, available_balance = av,
                 total_unrealized_pnl = pnl, balances = bs\<rparr>,
            st\<lparr>requests := requests st @ [AccountRequest]\<rparr>)
         \<and> bs = filter (\<lambda>b. case float_of_str (walletBalance b) of
                                Inl _ \<Rightarrow> False | Inr w \<Rightarrow> float_gt0 w) (assets acct)
         \<and> list_all (\<lambda>b. \<exists>d. Decimal (walletBalance b) = Inr d \<and> 0 < dval d) bs"
proof -
  from assms(5) obtain bs where bs: "positive_balances (assets acct) = Inr bs"
    using positive_balances_total by blast
  then have f: "bs = filter (\<lambda>b. case float_of_str (walletBalance b) of
                                Inl _ \<Rightarrow> False | Inr w \<Rightarrow> float_gt0 w) (assets acct)"
    by (rule positive_balances_filter)
  have "list_all (\<lambda>b. \<exists>d. Decimal (walletBalance b) = Inr d \<and> 0 < dval d) bs"
    unfolding list_all_iff
  proof
    fix b assume "b \<in> set bs"
    then have "case float_of_str (walletBalance b) of Inl _ \<Rightarrow> False | Inr w \<Rightarrow> float_gt0 w"
      using f by simp
    then show "\<exists>d. Decimal (walletBalance b) = Inr d \<and> 0 < dval d"
      by (auto split: sum.splits dest: float_of_str_gt0)
  qed
  moreover have "get_account_balance x st =
           (Inr \<lparr>total_margin_balance = tm, available_balance = av,
                 total_unrealized_pnl = pnl, balances = bs\<rparr>,
            st\<lparr>requests := requests st @ [AccountRequest]\<rparr>)"
    using assms(1-4) bs by (simp add: get_account_balance_def Let_def and_then_def)
  ultimately show ?thesis using f by blast
qed

lemma floor_log2_examples:
  "floor_log2 5 = 2" "floor_log2 12 = 3" "floor_log2 7 = 2" "floor_log2 3 = 1" "floor_log2 2 = 1"
  by (simp_all add: floor_log2_def ilog2_numeral ilog2_0 ilog2_1 p2_def Let_def)

lemma round_binary64_examples:
  "round_binary64 (- 5) = Fin (- 5)" "round_binary64 12 = Fin 12" "round_binary64 7 = Fin 7"
  "round_binary64 3 = Fin 3" "round_binary64 (- 2) = Fin (- 2)"
  by (simp_all add: round_binary64_def floor_log2_examples p2_def round_half_even_rat_def Let_def)

lemma float_of_str_examples:
  "float_of_str ''-5'' = Inr (Fin (- 5))" "float_of_str ''12'' = Inr (Fin 12)"
  "float_of_str ''0'' = Inr (Fin 0)" "float_of_str ''7'' = Inr (Fin 7)"
  "float_of_str ''3'' = Inr (Fin 3)" "float_of_str ''-2'' = Inr (Fin (- 2))"
  by (simp_all add: float_of_str_def parse_eval dval_def p10_def round_binary64_examples
      round_binary64_0)

theorem get_account_balance_result_witness:
  "futures_account example_exchange = Inr example_account
   \<and> float_of_str (totalMarginBalance example_account) = Inr (Fin 7)
   \<and> float_of_str (availableBalance example_account) = Inr (Fin 3)
   \<and> float_of_str (totalUnrealizedProfit example_account) = Inr (Fin (- 2))
   \<and> list_all (\<lambda>b. \<exists>w. float_of_str (walletBalance b) = Inr w) (assets example_account)
   \<and> get_account_balance example_exchange fresh_bot =
       (Inr \<lparr>total_margin_balance = Fin 7, available_balance = Fin 3,
             total_unrealized_pnl = Fin (- 2),
             balances = [\<lparr>asset = ''BTC'', walletBalance = ''12''\<rparr>]\<rparr>,
        fresh_bot\<lparr>requests := requests fresh_bot @ [AccountRequest]\<rparr>)"
  using get_account_balance_result [of example_exchange example_account "Fin 7" "Fin 3"
      "Fin (- 2)" fresh_bot]
  by (simp add: example_exchange_def example_account_def float_of_str_examples)

text \<open>
  The claim as stated fails for a negative wallet balance: it is not zero, and the
  entry is dropped.
\<close>

theorem negative_balance_dropped:
  "get_account_balance example_exchange fresh_bot =
       (Inr \<lparr>total_margin_balance = Fin 7, available_balance = Fin 3,
             total_unrealized_pnl = Fin (- 2),
             balances = [\<lparr>asset = ''BTC'', walletBalance = ''12''\<rparr>]\<rparr>,
        fresh_bot\<lparr>requests := requests fresh_bot @ [AccountRequest]\<rparr>)
   \<and> assets example_account =
       [\<lparr>asset = ''USDT'', walletBalance = ''-5''\<rparr>, \<lparr>asset = ''BTC'', walletBalance = ''12''\<rparr>,
        \<lparr>asset = ''ETH'', walletBalance = ''0''\<rparr>]
   \<and> float_of_str ''-5'' = Inr (Fin (- 5))
   \<and> Fin (- 5) \<noteq> Fin 0"
  by (simp add: get_account_balance_def example_exchange_def example_account_def and_then_def
      float_of_str_examples)

section \<open>Reading a formatted quantity back\<close>

lemma is_digit_not_sign: "is_digit c \<Longrightarrow> c \<noteq> CHR ''-'' \<and> c \<noteq> CHR ''+''"
  by (auto simp: is_digit_def digit_val_def)

lemma is_digit_not_E: "is_digit c \<Longrightarrow> c \<noteq> CHR ''E'' \<and> c \<noteq> CHR ''e''"
  by (auto simp: is_digit_def digit_val_def)

lemma takeWhile_digits:
  "\<forall>c\<in>set ip. is_digit c \<Longrightarrow>
     takeWhile (\<lambda>c. c \<noteq> CHR ''.'') (ip @ CHR ''.'' # r) = ip"
  by (induction ip) (auto dest: is_digit_not_point)

lemma takeWhile_all: "\<forall>c\<in>set xs. P c \<Longrightarrow> takeWhile P xs = xs"
  by (induction xs) auto

lemma dropWhile_all: "\<forall>c\<in>set xs. P c \<Longrightarrow> dropWhile P xs = []"
  by (induction xs) auto

text \<open>Reading a plain numeral: sign, integer digits, and a point with fraction digits
  unless there are none.\<close>

lemma Decimal_plain:
  assumes ip: "ip \<noteq> []" "\<forall>c\<in>set ip. is_digit c" and fp: "\<forall>c\<in>set fp. is_digit c"
    and len: "length fp = n" and v: "nat_of_digits 0 (ip @ fp) = Some c"
  shows "Decimal ((if neg then ''-'' else []) @ ip @ (if n = 0 then [] else CHR ''.'' # fp))
     = Inr \<lparr>dsign = neg, coef = c, dexp = - int n\<rparr>"
proof -
  define tl where "tl = (if n = 0 then [] else CHR ''.'' # fp)"
  define body where "body = ip @ tl"
  define s where "s = (if neg then ''-'' else []) @ ip @ tl"
  obtain h t where ipc: "ip = h # t" using ip(1) by (cases ip) auto
  have h: "h \<noteq> CHR ''-''" "h \<noteq> CHR ''+''"
    using ip(2) is_digit_not_sign [of h] by (auto simp: ipc)
  have sneg: "(case s of c # _ \<Rightarrow> c = CHR ''-'' | [] \<Rightarrow> False) = neg"
    using h by (simp add: s_def ipc)
  have sbody: "(case s of c # r \<Rightarrow> if c = CHR ''-'' \<or> c = CHR ''+'' then r else s | [] \<Rightarrow> s) = body"
    using h by (simp add: s_def ipc body_def)
  have allE: "\<forall>c\<in>set body. c \<noteq> CHR ''E'' \<and> c \<noteq> CHR ''e''"
    using ip(2) fp by (auto simp: body_def tl_def dest: is_digit_not_E)
  have mant: "takeWhile (\<lambda>c. c \<noteq> CHR ''E'' \<and> c \<noteq> CHR ''e'') body = body"
    using allE by (rule takeWhile_all)
  have ex: "dropWhile (\<lambda>c. c \<noteq> CHR ''E'' \<and> c \<noteq> CHR ''e'') body = []"
    using allE by (rule dropWhile_all)
  have allP: "\<forall>c\<in>set ip. c \<noteq> CHR ''.''" using ip(2) by (auto dest: is_digit_not_point)
  have ipart: "takeWhile (\<lambda>c. c \<noteq> CHR ''.'') body = ip"
  proof (cases "n = 0")
    case True
    then show ?thesis using allP by (simp add: body_def tl_def takeWhile_all)
  next
    case False
    then show ?thesis using ip(2) by (simp add: body_def tl_def takeWhile_digits)
  qed
  have fpart: "(case dropWhile (\<lambda>c. c \<noteq> CHR ''.'') body of [] \<Rightarrow> [] | _ # f \<Rightarrow> f) = fp"
  proof (cases "n = 0")
    case True
    then show ?thesis using allP len by (simp add: body_def tl_def dropWhile_all)
  next
    case False
    then show ?thesis using ip(2)
      by (simp add: body_def tl_def dropWhile_digits)
  qed
  have pe: "parse_exponent [] = Some 0" by (simp add: parse_exponent_def)
  have "Decimal s = Inr \<lparr>dsign = neg, coef = c, dexp = - int n\<rparr>"
    unfolding Decimal_def Let_def sneg sbody mant ex ipart fpart pe
    using ip(1) v len by simp
  then show ?thesis by (simp add: s_def tl_def)
qed

lemma decimal_rescale_fields:
  "rescale d e = \<lparr>dsign = dsign (rescale d e), coef = coef (rescale d e), dexp = e\<rparr>"
  by (simp add: rescale_def)

text \<open>Reading a formatted decimal back gives the rescaled decimal itself.\<close>

lemma Decimal_format_f: "Decimal (format_f d n) = Inr (rescale d (- int n))"
proof -
  obtain ip fp where
    f: "format_f d n = (if dsign (rescale d (- int n)) then ''-'' else []) @ ip
          @ (if n = 0 then [] else CHR ''.'' # fp)"
    and ip: "ip \<noteq> []" "\<forall>c\<in>set ip. is_digit c" and fp: "\<forall>c\<in>set fp. is_digit c"
    and len: "length fp = n"
    and v: "nat_of_digits 0 (ip @ fp) = Some (coef (rescale d (- int n)))"
    using format_f_shape [of d n] by blast
  show ?thesis
    unfolding f Decimal_plain [OF ip fp len v]
    using decimal_rescale_fields [of d "- int n"] by simp
qed

section \<open>Decimal arithmetic without rounding\<close>

lemma p10_powi: "p10 e = 10 powi e"
  by (simp add: p10_def power_int_def power_one_over)

lemma p10_pos: "0 < p10 e"
  by (simp add: p10_def)

lemma p10_add: "p10 (a + b) = p10 a * p10 b"
  by (simp add: p10_powi power_int_add)

lemma p10_nat: "p10 (int n) = 10 ^ n"
  by (simp add: p10_def)

lemma p10_diff: "p10 (a - b) = p10 a / p10 b"
  by (simp add: p10_powi power_int_diff)

lemma str_nat_length: "n < 10 ^ k \<Longrightarrow> 0 < k \<Longrightarrow> length (str_nat n) \<le> k"
proof (induction n arbitrary: k rule: str_nat.induct)
  case (1 n)
  show ?case
  proof (cases "n < 10")
    case True
    with "1.prems" show ?thesis by (simp add: str_nat.simps [of n])
  next
    case False
    obtain j where k: "k = Suc j" using "1.prems"(2) by (cases k) auto
    from False "1.prems"(1) have "j \<noteq> 0" by (auto simp: k intro!: Nat.gr0I)
    then have j: "0 < j" by simp
    from "1.prems"(1) have "n div 10 < 10 ^ j"
      by (simp add: k less_mult_imp_div_less mult.commute)
    from "1.IH" [OF False this j] show ?thesis
      using False by (simp add: str_nat.simps [of n] k)
  qed
qed

lemma ndigits_le: "n < 10 ^ k \<Longrightarrow> 0 < k \<Longrightarrow> ndigits n \<le> k"
  by (simp add: ndigits_def str_nat_length)

lemma dval_nonneg_abs: "0 \<le> dval d \<Longrightarrow> dval d = of_nat (coef d) * p10 (dexp d)"
proof (cases "dsign d")
  case True
  assume "0 \<le> dval d"
  with True have le: "of_nat (coef d) * p10 (dexp d) \<le> 0" by (simp add: dval_def)
  have "coef d = 0"
  proof (rule ccontr)
    assume "coef d \<noteq> 0"
    then have "0 < (of_nat (coef d) :: rat)" by simp
    then have "0 < of_nat (coef d) * p10 (dexp d)" using p10_pos by (rule mult_pos_pos)
    with le show False by simp
  qed
  with True show ?thesis by (simp add: dval_def)
next
  case False
  then show "dval d = of_nat (coef d) * p10 (dexp d)" by (simp add: dval_def)
qed

lemma dval_pos: "0 < dval d \<Longrightarrow> \<not> dsign d \<and> 0 < coef d"
proof -
  assume p: "0 < dval d"
  then have "0 \<le> dval d" by simp
  then have e: "dval d = of_nat (coef d) * p10 (dexp d)" by (rule dval_nonneg_abs)
  from p e have "coef d \<noteq> 0" by (auto intro!: Nat.gr0I)
  moreover have "\<not> dsign d"
  proof
    assume "dsign d"
    then have "dval d = - (of_nat (coef d) * p10 (dexp d))" by (simp add: dval_def)
    with e p show False by linarith
  qed
  ultimately show ?thesis by simp
qed

lemma floordiv_value:
  assumes b: "0 < dval b" and q: "0 \<le> dval q" and small: "\<lfloor>dval q / dval b\<rfloor> < 10 ^ 28"
  shows "floordiv q b =
    Inr \<lparr>dsign = (dsign q \<noteq> dsign b), coef = nat \<lfloor>dval q / dval b\<rfloor>, dexp = 0\<rparr>"
proof -
  define op1 where "op1 = (if dexp q \<ge> dexp b then coef q * 10 ^ nat (dexp q - dexp b) else coef q)"
  define op2 where "op2 = (if dexp q \<ge> dexp b then coef b else coef b * 10 ^ nat (dexp b - dexp q))"
  from b have cb: "0 < coef b" by (simp add: dval_pos)
  from b have "0 \<le> dval b" by simp
  then have vb: "dval b = of_nat (coef b) * p10 (dexp b)" by (rule dval_nonneg_abs)
  from q have vq: "dval q = of_nat (coef q) * p10 (dexp q)" by (rule dval_nonneg_abs)
  have ratio: "(of_nat op1 :: rat) / of_nat op2 = dval q / dval b"
  proof (cases "dexp q \<ge> dexp b")
    case True
    then have "(of_nat op1 :: rat) = of_nat (coef q) * p10 (dexp q - dexp b)"
      by (simp add: op1_def p10_def)
    moreover from True have "op2 = coef b" by (simp add: op2_def)
    ultimately show ?thesis
      using p10_pos [of "dexp b"] by (simp add: vb vq p10_diff)
  next
    case False
    then have "(of_nat op2 :: rat) = of_nat (coef b) * p10 (dexp b - dexp q)"
      by (simp add: op2_def p10_def)
    moreover from False have "op1 = coef q" by (simp add: op1_def)
    ultimately show ?thesis
      using p10_pos [of "dexp q"] by (simp add: vb vq p10_diff)
  qed
  have "\<lfloor>dval q / dval b\<rfloor> = int (op1 div op2)"
    unfolding ratio [symmetric] by (rule floor_divide_of_nat_eq)
  then have n: "op1 div op2 = nat \<lfloor>dval q / dval b\<rfloor>" by simp
  from small have "int (nat \<lfloor>dval q / dval b\<rfloor>) < 10 ^ 28" by simp
  then have lt: "nat \<lfloor>dval q / dval b\<rfloor> < 10 ^ 28"
    by (metis of_nat_less_iff of_nat_numeral of_nat_power)
  show ?thesis
    using cb lt
    by (simp add: floordiv_def Let_def op1_def [symmetric] op2_def [symmetric] n prec_def)
qed

lemma fix_ctx_exact:
  assumes "coef d < 10 ^ 28" and "Etiny \<le> dexp d" and "dexp d \<le> Etop"
  shows "fix_ctx d = Inr d"
proof (cases "coef d = 0")
  case True
  have "Etop \<le> Emax" by (simp add: Etop_def prec_def)
  with assms(2,3) have "min (max (dexp d) Etiny) Emax = dexp d" by simp
  with True show ?thesis by (simp add: fix_ctx_def)
next
  case False
  from assms(1) have "ndigits (coef d) \<le> 28" by (simp add: ndigits_le)
  then have le: "int (ndigits (coef d)) + dexp d - int prec \<le> dexp d" by (simp add: prec_def)
  with assms(3) have a: "\<not> int (ndigits (coef d)) + dexp d - int prec > Etop" by simp
  from le assms(2) have b: "\<not> dexp d < max (int (ndigits (coef d)) + dexp d - int prec) Etiny"
    by simp
  from False a b show ?thesis by (simp add: fix_ctx_def Let_def)
qed

lemma mul_exact:
  assumes "coef a * coef b < 10 ^ 28" and "Etiny \<le> dexp a + dexp b"
    and "dexp a + dexp b \<le> Etop"
  shows "mul a b =
    Inr \<lparr>dsign = (dsign a \<noteq> dsign b), coef = coef a * coef b, dexp = dexp a + dexp b\<rparr>"
  unfolding mul_def using assms by (intro fix_ctx_exact) simp_all

lemma round_half_even_dvd: "10 ^ k dvd c \<Longrightarrow> round_half_even c k = c div 10 ^ k"
  by (simp add: round_half_even_def Let_def mod_eq_0_iff_dvd)

text \<open>Rescaling to an exponent of which the value is a multiple changes nothing.\<close>

lemma rescale_exact:
  assumes "dval d = of_int m * p10 e"
  shows "dval (rescale d e) = dval d"
proof (cases "coef d = 0 \<or> dexp d \<ge> e")
  case True
  then show ?thesis
  proof
    assume "coef d = 0"
    then show ?thesis by (simp add: rescale_def dval_def)
  next
    assume ge: "dexp d \<ge> e"
    have "p10 (dexp d) = 10 ^ nat (dexp d - e) * p10 e"
      using p10_add [of "dexp d - e" e] ge by (simp add: p10_def)
    with ge show ?thesis by (simp add: rescale_def dval_def)
  qed
next
  case False
  then have c: "coef d \<noteq> 0" and lt: "dexp d < e" by auto
  define k where "k = nat (e - dexp d)"
  have pk: "p10 e = 10 ^ k * p10 (dexp d)"
    using p10_add [of "e - dexp d" "dexp d"] lt by (simp add: p10_def k_def)
  have a1: "\<bar>dval d\<bar> = of_nat (coef d) * p10 (dexp d)"
    using p10_pos [of "dexp d"] by (simp add: dval_def abs_mult)
  have a2: "\<bar>dval d\<bar> = of_int \<bar>m\<bar> * p10 e"
    using p10_pos [of e] by (simp add: assms abs_mult)
  have "(of_nat (coef d) :: rat) * p10 (dexp d) = of_int \<bar>m\<bar> * p10 e"
    using a1 a2 by (rule trans [OF sym])
  also have "\<dots> = (of_int \<bar>m\<bar> * 10 ^ k) * p10 (dexp d)"
    by (simp only: pk mult.assoc)
  finally have eq: "(of_nat (coef d) :: rat) * p10 (dexp d) = (of_int \<bar>m\<bar> * 10 ^ k) * p10 (dexp d)" .
  have nz: "p10 (dexp d) \<noteq> 0" using p10_pos [of "dexp d"] by simp
  have "(of_nat (coef d) :: rat) = of_int \<bar>m\<bar> * 10 ^ k"
    by (rule mult_right_cancel [OF nz, THEN iffD1, OF eq])
  then have "(of_int (int (coef d)) :: rat) = of_int (\<bar>m\<bar> * 10 ^ k)" by simp
  then have "int (coef d) = \<bar>m\<bar> * 10 ^ k" by (simp only: of_int_eq_iff)
  then have "int (coef d) = int (nat \<bar>m\<bar> * 10 ^ k)" by simp
  then have ck: "coef d = nat \<bar>m\<bar> * 10 ^ k" by (simp only: of_nat_eq_iff)
  then have dv: "10 ^ k dvd coef d" by simp
  have "coef (rescale d e) = coef d div 10 ^ k"
    using c lt dv by (simp add: rescale_def k_def round_half_even_dvd)
  then have "coef (rescale d e) = nat \<bar>m\<bar>" by (simp add: ck)
  moreover have "dsign (rescale d e) = dsign d" "dexp (rescale d e) = e"
    by (simp_all add: rescale_def)
  ultimately have "dval (rescale d e) = (if dsign d then - 1 else 1) * of_nat (nat \<bar>m\<bar>) * p10 e"
    by (simp add: dval_def)
  also have "\<dots> = (if dsign d then - 1 else 1) * of_nat (coef d) * p10 (dexp d)"
    by (simp add: ck pk)
  finally show ?thesis by (simp add: dval_def)
qed

section \<open>The quantity normaliser: the value returned\<close>

text \<open>
  The normaliser on well-formed rules, when no rounding interferes: the result reads
  back as the step size times the integer part of the quotient.
\<close>

lemma normalize_exact:
  assumes step: "0 < dval (step_size r)"
    and q0: "0 \<le> dval q"
    and ge: "dval (min_qty r) \<le> dval q"
    and fits: "dval q < 10 ^ 28 * p10 (dexp (step_size r))"
    and lo: "Etiny \<le> dexp (step_size r)" and hi: "dexp (step_size r) \<le> Etop"
    and grid: "dval (step_size r) = of_int m * p10 (- int (quantity_precision r))"
  shows "\<exists>s d. normalize r q = Inr s \<and> Decimal s = Inr d
    \<and> dval d = of_int \<lfloor>dval q / dval (step_size r)\<rfloor> * dval (step_size r)"
proof -
  define b where "b = step_size r"
  define F where "F = \<lfloor>dval q / dval b\<rfloor>"
  define n where "n = nat F"
  have bpos: "0 < dval b" using step by (simp add: b_def)
  then have sb: "\<not> dsign b" and cb: "0 < coef b" by (simp_all add: dval_pos)
  from bpos have "0 \<le> dval b" by simp
  then have vb: "dval b = of_nat (coef b) * p10 (dexp b)" by (rule dval_nonneg_abs)
  have F0: "0 \<le> F" using q0 bpos by (simp add: F_def)
  then have nF: "int n = F" by (simp add: n_def)
  have "of_int F \<le> dval q / dval b" by (simp add: F_def)
  then have Fle: "of_int F * dval b \<le> dval q" using bpos by (simp add: pos_le_divide_eq)
  have "of_nat (n * coef b) * p10 (dexp b) = of_int F * dval b"
    by (simp add: vb nF [symmetric])
  with Fle fits have "of_nat (n * coef b) * p10 (dexp b) < 10 ^ 28 * p10 (dexp b)"
    by (simp add: b_def)
  then have "(of_nat (n * coef b) :: rat) < 10 ^ 28" using p10_pos [of "dexp b"] by simp
  then have "(of_nat (n * coef b) :: rat) < of_nat (10 ^ 28)" by simp
  then have prod: "n * coef b < 10 ^ 28" by (simp only: of_nat_less_iff)
  have "n * 1 \<le> n * coef b" using cb by (intro mult_le_mono2) simp
  then have "n \<le> n * coef b" by (simp only: mult_1_right)
  from this prod have "n < 10 ^ 28" by (rule le_less_trans)
  then have "int n < 10 ^ 28" by (metis of_nat_less_iff of_nat_numeral of_nat_power)
  then have small: "\<lfloor>dval q / dval b\<rfloor> < 10 ^ 28" by (simp add: nF F_def [symmetric])
  define k where "k = \<lparr>dsign = (dsign q \<noteq> dsign b), coef = n, dexp = 0\<rparr>"
  have fd: "floordiv q b = Inr k"
    using floordiv_value [OF bpos q0 small] by (simp add: k_def n_def F_def)
  define adj where "adj = \<lparr>dsign = (dsign k \<noteq> dsign b), coef = coef k * coef b,
    dexp = dexp k + dexp b\<rparr>"
  have ml: "mul k b = Inr adj"
    unfolding adj_def
    using prod lo hi by (intro mul_exact) (simp_all add: k_def b_def)
  have nm: "normalize r q = Inr (format_f adj (quantity_precision r))"
    using ge fd ml by (simp add: normalize_def dlt_def b_def [symmetric] not_less [symmetric])
  have va: "dval adj = of_int F * dval b"
  proof (cases "dsign q")
    case True
    from q0 have "dval q = of_nat (coef q) * p10 (dexp q)" by (rule dval_nonneg_abs)
    moreover from True have "dval q = - (of_nat (coef q) * p10 (dexp q))" by (simp add: dval_def)
    ultimately have "dval q = 0" by linarith
    then have "F = 0" by (simp add: F_def)
    then show ?thesis by (simp add: adj_def k_def dval_def n_def)
  next
    case False
    then show ?thesis using sb by (simp add: adj_def k_def dval_def vb nF [symmetric])
  qed
  then have "dval adj = of_int (F * m) * p10 (- int (quantity_precision r))"
    using grid by (simp add: b_def)
  then have "dval (rescale adj (- int (quantity_precision r))) = dval adj"
    by (rule rescale_exact)
  with va have "dval (rescale adj (- int (quantity_precision r))) =
      of_int \<lfloor>dval q / dval (step_size r)\<rfloor> * dval (step_size r)"
    by (simp add: F_def b_def)
  with nm Decimal_format_f [of adj "quantity_precision r"] show ?thesis by blast
qed

text \<open>
  C1 (as amended). Take rules with a positive step size that is a multiple of
  \<open>10 ^ - quantity_precision\<close> and whose exponent lies within the context's range,
  and a minimum quantity that is not negative. Then for every quantity \<open>q\<close> that is
  at least the minimum and below \<open>10 ^ 28\<close> units of the step's last place, the
  normaliser succeeds, and its string reads back as the step size times the integer
  part of \<open>q / step_size\<close>: an exact multiple of the step, and at most \<open>q\<close>. With
  the scenario's rules, \<open>0.0035\<close> gives \<^verbatim>\<open>"0.003"\<close> whatever the price precision.
\<close>

theorem normalize_floor_multiple:
  "(0 < dval (step_size r) \<and> 0 \<le> dval (min_qty r) \<and> dval (min_qty r) \<le> dval q
    \<and> dval q < 10 ^ 28 * p10 (dexp (step_size r))
    \<and> Etiny \<le> dexp (step_size r) \<and> dexp (step_size r) \<le> Etop
    \<and> dval (step_size r) = of_int m * p10 (- int (quantity_precision r))
    \<longrightarrow> (\<exists>s d. normalize r q = Inr s \<and> Decimal s = Inr d
          \<and> dval d = of_int \<lfloor>dval q / dval (step_size r)\<rfloor> * dval (step_size r)
          \<and> dval d \<le> dval q))
   \<and> normalize (example_rules\<lparr>price_precision := pp\<rparr>)
         \<lparr>dsign = False, coef = 35, dexp = - 4\<rparr> = Inr ''0.003''"
proof (intro conjI impI)
  assume h: "0 < dval (step_size r) \<and> 0 \<le> dval (min_qty r) \<and> dval (min_qty r) \<le> dval q
    \<and> dval q < 10 ^ 28 * p10 (dexp (step_size r))
    \<and> Etiny \<le> dexp (step_size r) \<and> dexp (step_size r) \<le> Etop
    \<and> dval (step_size r) = of_int m * p10 (- int (quantity_precision r))"
  then have q0: "0 \<le> dval q" by linarith
  from h obtain s d where sd: "normalize r q = Inr s" "Decimal s = Inr d"
    "dval d = of_int \<lfloor>dval q / dval (step_size r)\<rfloor> * dval (step_size r)"
    using normalize_exact [of r q m] q0 by blast
  from h have bpos: "0 < dval (step_size r)" by simp
  have "of_int \<lfloor>dval q / dval (step_size r)\<rfloor> * dval (step_size r) \<le> dval q"
    using of_int_floor_le [of "dval q / dval (step_size r)"]
    by (simp only: pos_le_divide_eq [OF bpos])
  with sd show "\<exists>s d. normalize r q = Inr s \<and> Decimal s = Inr d
          \<and> dval d = of_int \<lfloor>dval q / dval (step_size r)\<rfloor> * dval (step_size r)
          \<and> dval d \<le> dval q" by auto
next
  show "normalize (example_rules\<lparr>price_precision := pp\<rparr>)
         \<lparr>dsign = False, coef = 35, dexp = - 4\<rparr> = Inr ''0.003''"
    by (simp add: example_rules_def decimal_eval)
qed

theorem normalize_floor_multiple_witness:
  "0 < dval (step_size example_rules) \<and> 0 \<le> dval (min_qty example_rules)
   \<and> dval (min_qty example_rules) \<le> dval \<lparr>dsign = False, coef = 35, dexp = - 4\<rparr>
   \<and> dval \<lparr>dsign = False, coef = 35, dexp = - 4\<rparr> < 10 ^ 28 * p10 (dexp (step_size example_rules))
   \<and> Etiny \<le> dexp (step_size example_rules) \<and> dexp (step_size example_rules) \<le> Etop
   \<and> dval (step_size example_rules) = of_int 1 * p10 (- int (quantity_precision example_rules))
   \<and> normalize example_rules \<lparr>dsign = False, coef = 35, dexp = - 4\<rparr> = Inr ''0.003''
   \<and> Decimal ''0.003'' = Inr \<lparr>dsign = False, coef = 3, dexp = - 3\<rparr>
   \<and> dval \<lparr>dsign = False, coef = 3, dexp = - 3\<rparr> = of_int 3 * dval (step_size example_rules)
   \<and> dval \<lparr>dsign = False, coef = 3, dexp = - 3\<rparr> \<le> dval \<lparr>dsign = False, coef = 35, dexp = - 4\<rparr>"
  using normalize_floor_multiple [of example_rules "\<lparr>dsign = False, coef = 35, dexp = - 4\<rparr>" 1 2]
  by (simp add: example_rules_def dval_def p10_def Etiny_def Etop_def Emin_def Emax_def prec_def
      parse_eval)

text \<open>
  The claim as stated fails when the rules give fewer places than the step has: the
  format rounds half to even, here upwards, beyond the quantity asked for.
\<close>

theorem coarse_precision_rounds_up:
  "0 < dval (step_size coarse_rules)
   \<and> dval (min_qty coarse_rules) \<le> dval \<lparr>dsign = False, coef = 6, dexp = - 3\<rparr>
   \<and> normalize coarse_rules \<lparr>dsign = False, coef = 6, dexp = - 3\<rparr> = Inr ''0.01''
   \<and> Decimal ''0.01'' = Inr \<lparr>dsign = False, coef = 1, dexp = - 2\<rparr>
   \<and> dval \<lparr>dsign = False, coef = 6, dexp = - 3\<rparr> < dval \<lparr>dsign = False, coef = 1, dexp = - 2\<rparr>"
  by (simp add: coarse_rules_def example_rules_def decimal_eval parse_eval)

text \<open>
  C2 (as amended). Take rules as in C1 whose minimum quantity is a multiple of the
  step size (zero or more steps). Then every quantity the normaliser accepts comes
  back as a string whose value is an integer multiple of the step size and at least
  the minimum quantity.
\<close>

theorem normalize_accepted_at_least_minimum:
  assumes acc: "normalize r q = Inr s"
    and step: "0 < dval (step_size r)"
    and mult: "dval (min_qty r) = of_nat j * dval (step_size r)"
    and fits: "dval q < 10 ^ 28 * p10 (dexp (step_size r))"
    and lo: "Etiny \<le> dexp (step_size r)" and hi: "dexp (step_size r) \<le> Etop"
    and grid: "dval (step_size r) = of_int m * p10 (- int (quantity_precision r))"
  shows "\<exists>d k. Decimal s = Inr d \<and> dval d = of_int k * dval (step_size r)
    \<and> dval (min_qty r) \<le> dval d"
proof -
  define b where "b = dval (step_size r)"
  have bpos: "0 < b" using step by (simp add: b_def)
  from acc have ge: "dval (min_qty r) \<le> dval q"
    by (auto simp: normalize_def dlt_def split: if_splits)
  have m0: "0 \<le> dval (min_qty r)" using bpos by (simp add: mult b_def)
  with ge have q0: "0 \<le> dval q" by simp
  obtain s' d where sd: "normalize r q = Inr s'" "Decimal s' = Inr d"
    "dval d = of_int \<lfloor>dval q / dval (step_size r)\<rfloor> * dval (step_size r)"
    using normalize_exact [OF step q0 ge fits lo hi grid] by blast
  from sd(1) acc have s: "s' = s" by simp
  from ge have "of_nat j * b \<le> dval q" by (simp add: mult b_def)
  then have "of_nat j \<le> dval q / b" using bpos by (simp add: pos_le_divide_eq)
  then have "of_int (int j) \<le> dval q / b" by simp
  then have "int j \<le> \<lfloor>dval q / b\<rfloor>" by (simp only: le_floor_iff)
  then have "(of_int (int j) :: rat) \<le> of_int \<lfloor>dval q / b\<rfloor>" by (simp only: of_int_le_iff)
  then have "of_int (int j) * b \<le> of_int \<lfloor>dval q / b\<rfloor> * b"
    using bpos by (intro mult_right_mono) simp_all
  then have "dval (min_qty r) \<le> dval d" by (simp add: mult sd(3) b_def)
  with sd(2,3) s show ?thesis by blast
qed

theorem normalize_accepted_at_least_minimum_witness:
  "normalize example_rules \<lparr>dsign = False, coef = 35, dexp = - 4\<rparr> = Inr ''0.003''
   \<and> 0 < dval (step_size example_rules)
   \<and> dval (min_qty example_rules) = of_nat 1 * dval (step_size example_rules)
   \<and> dval \<lparr>dsign = False, coef = 35, dexp = - 4\<rparr> < 10 ^ 28 * p10 (dexp (step_size example_rules))
   \<and> Etiny \<le> dexp (step_size example_rules) \<and> dexp (step_size example_rules) \<le> Etop
   \<and> dval (step_size example_rules) = of_int 1 * p10 (- int (quantity_precision example_rules))
   \<and> Decimal ''0.003'' = Inr \<lparr>dsign = False, coef = 3, dexp = - 3\<rparr>
   \<and> dval \<lparr>dsign = False, coef = 3, dexp = - 3\<rparr> = of_int 3 * dval (step_size example_rules)
   \<and> dval (min_qty example_rules) \<le> dval \<lparr>dsign = False, coef = 3, dexp = - 3\<rparr>"
proof -
  have n: "normalize example_rules \<lparr>dsign = False, coef = 35, dexp = - 4\<rparr> = Inr ''0.003''"
    by (rule normalize_example_35)
  have h: "0 < dval (step_size example_rules)"
    "dval (min_qty example_rules) = of_nat 1 * dval (step_size example_rules)"
    "dval \<lparr>dsign = False, coef = 35, dexp = - 4\<rparr> < 10 ^ 28 * p10 (dexp (step_size example_rules))"
    "Etiny \<le> dexp (step_size example_rules)" "dexp (step_size example_rules) \<le> Etop"
    "dval (step_size example_rules) = of_int 1 * p10 (- int (quantity_precision example_rules))"
    by (simp_all add: example_rules_def dval_def p10_def Etiny_def Etop_def Emin_def Emax_def
        prec_def)
  have c: "Decimal ''0.003'' = Inr \<lparr>dsign = False, coef = 3, dexp = - 3\<rparr>"
    "dval \<lparr>dsign = False, coef = 3, dexp = - 3\<rparr> = of_int 3 * dval (step_size example_rules)"
    "dval (min_qty example_rules) \<le> dval \<lparr>dsign = False, coef = 3, dexp = - 3\<rparr>"
    by (simp_all add: example_rules_def dval_def p10_def parse_eval)
  show ?thesis
    using normalize_accepted_at_least_minimum [OF n h] n h c by blast
qed

text \<open>
  The claim as stated fails when the minimum is no multiple of the step: the minimum
  is checked on the raw quantity, and the floor to the step goes below it.
\<close>

theorem floor_falls_below_minimum:
  "normalize uneven_rules \<lparr>dsign = False, coef = 5, dexp = - 3\<rparr> = Inr ''0.004''
   \<and> Decimal ''0.004'' = Inr \<lparr>dsign = False, coef = 4, dexp = - 3\<rparr>
   \<and> dval \<lparr>dsign = False, coef = 4, dexp = - 3\<rparr> < dval (min_qty uneven_rules)"
  by (simp add: uneven_rules_def decimal_eval parse_eval)

section \<open>The quantity normaliser on the raw quantity\<close>

lemma normalize_raw_Finite:
  "Decimal_str qs = Inr (Finite d) \<Longrightarrow> normalize_raw r qs = normalize r d"
  by (simp add: normalize_raw_def normalize_def split: sum.splits)

lemma Decimal_str_Infinity: "Decimal_str qs = Inr (Infinity False) \<Longrightarrow> qs = ''inf''"
  by (simp add: Decimal_str_def split: if_splits sum.splits)

lemma normalize_raw_cases:
  assumes "normalize_raw r qs = Inr out"
  shows "qs = ''inf'' \<or> (\<exists>d. Decimal_str qs = Inr (Finite d) \<and> normalize r d = Inr out)"
proof (cases "Decimal_str qs")
  case (Inl e)
  with assms show ?thesis by (simp add: normalize_raw_def)
next
  case (Inr qd)
  show ?thesis
  proof (cases qd)
    case (Finite d)
    with Inr assms show ?thesis by (simp add: normalize_raw_Finite)
  next
    case (Infinity neg)
    with Inr assms have "\<not> neg" by (auto simp: normalize_raw_def split: if_splits)
    with Inr Infinity show ?thesis by (simp add: Decimal_str_Infinity)
  next
    case NaN
    with Inr assms show ?thesis by (simp add: normalize_raw_def)
  qed
qed

text \<open>
  C4 (as amended). Whatever the rules, every raw quantity that is accepted, other
  than the float infinity, comes back with exactly \<open>quantity_precision\<close> digits
  after the decimal point, trailing zeros included (with a precision of zero the
  string has no point and no digit after it).
\<close>

theorem normalize_raw_fraction_digits:
  assumes "normalize_raw r qs = Inr out" and "qs \<noteq> ''inf''"
  shows "length (fraction_part out) = quantity_precision r
    \<and> (\<forall>c\<in>set (fraction_part out). is_digit c)"
proof -
  from assms obtain d where "normalize r d = Inr out"
    using normalize_raw_cases by blast
  then show ?thesis by (rule normalize_finite_fraction_digits)
qed

theorem normalize_raw_fraction_digits_witness:
  "normalize_raw example_rules ''0.0035'' = Inr ''0.003''
   \<and> ''0.0035'' \<noteq> ''inf''
   \<and> length (fraction_part ''0.003'') = quantity_precision example_rules
   \<and> list_all is_digit (fraction_part ''0.003'')"
proof -
  have d: "Decimal_str ''0.0035'' = Inr (Finite \<lparr>dsign = False, coef = 35, dexp = - 4\<rparr>)"
    by (simp add: Decimal_str_def parse_eval)
  have n: "normalize_raw example_rules ''0.0035'' = Inr ''0.003''"
    by (simp add: normalize_raw_Finite [OF d] normalize_example_35)
  have i: "''0.0035'' \<noteq> ''inf''" by simp
  show ?thesis
    using normalize_raw_fraction_digits [OF n i] n by (simp add: list_all_iff)
qed

text \<open>
  The claim as stated fails for the float infinity: it is not below the minimum, it
  stays an infinity through \<^verbatim>\<open>//\<close> and \<^verbatim>\<open>*\<close>, and it is returned as \<^verbatim>\<open>Infinity\<close>, with
  no digit after a decimal point where the rules ask for three.
\<close>

theorem infinite_quantity_accepted:
  "normalize_raw example_rules ''inf'' = Inr ''Infinity''
   \<and> fraction_part ''Infinity'' = []
   \<and> quantity_precision example_rules = 3"
  by (simp add: normalize_raw_def Decimal_str_def example_rules_def fraction_part_def)

end
